theory Spec2Isabelle
  imports Complex_Main
begin

section \<open>Python values and errors\<close>

text \<open>
  The exceptions the modelled functions can raise. A function that can raise returns
  \<open>error + 'a\<close>, with \<open>Inl\<close> for the exception.
\<close>

datatype error =
    ValueError
  | IndexError
  | OverflowError
  | ZeroDivisionError
  | RuntimeError
  | OptimizeWarning
  | TypeError
  | UnboundLocalError

section \<open>utilities.py\<close>

text \<open>
  \<open>index_number_to_coordinate(index, lattice)\<close>: Python's \<open>//\<close> and \<open>%\<close> are floor division
  and its remainder, which on \<open>int\<close> are \<open>div\<close> and \<open>mod\<close>. The divisor \<open>lattice[1]\<close> is
  the column count, already checked to be at least 1 when the division is reached.
\<close>

definition index_number_to_coordinate :: "int \<Rightarrow> int \<times> int \<Rightarrow> error + int \<times> int" where
  "index_number_to_coordinate index lattice =
     (case lattice of (lattice_row, lattice_col) \<Rightarrow>
        if index < 1 \<or> lattice_row < 1 \<or> lattice_col < 1 then Inl ValueError
        else
          let row = ((index - 1) div snd lattice) + 1;
              col = ((index - 1) mod snd lattice) + 1
          in if row > lattice_row \<or> col > lattice_col then Inl IndexError
             else Inr (row, col))"

section \<open>Python lists and numpy arrays\<close>

text \<open>
  The timestamps and the measurements are finite and are modelled as real numbers with
  exact arithmetic. The one place where \<open>estimate_parameters\<close> produces a not-a-number
  from them is numpy's mean and standard deviation of an empty array, so a numpy scalar
  there is a \<open>real option\<close> with \<open>None\<close> for nan; every comparison with nan is false.
  The floats of the growth model and of the fit, which can be infinite, come further down.
\<close>

type_synonym npfloat = "real option"

text \<open>\<open>xs[i]\<close> on a list: a negative index counts from the end, out of range raises.\<close>

definition py_getitem :: "'a list \<Rightarrow> int \<Rightarrow> error + 'a" where
  "py_getitem xs i =
     (if 0 \<le> i \<and> i < int (length xs) then Inr (xs ! nat i)
      else if i < 0 \<and> - int (length xs) \<le> i then Inr (xs ! nat (int (length xs) + i))
      else Inl IndexError)"

text \<open>\<open>xs[start:stop]\<close>: negative bounds count from the end, and bounds are clamped.\<close>

definition py_slice :: "'a list \<Rightarrow> int \<Rightarrow> int \<Rightarrow> 'a list" where
  "py_slice xs start stop =
     (let n = int (length xs);
          lo = (if start < 0 then max (start + n) 0 else min start n);
          hi = (if stop < 0 then max (stop + n) 0 else min stop n)
      in take (nat (hi - lo)) (drop (nat lo) xs))"

text \<open>The builtins \<open>max\<close> and \<open>min\<close> of a sequence raise ValueError on an empty one.\<close>

fun py_max :: "real list \<Rightarrow> error + real" where
  "py_max [] = Inl ValueError"
| "py_max (x # xs) = Inr (fold max xs x)"

fun py_min :: "real list \<Rightarrow> error + real" where
  "py_min [] = Inl ValueError"
| "py_min (x # xs) = Inr (fold min xs x)"

text \<open>\<open>numpy.diff\<close>: the first differences \<open>a[k + 1] - a[k]\<close>; empty below two elements.\<close>

fun diff :: "real list \<Rightarrow> real list" where
  "diff (x # y # xs) = (y - x) # diff (y # xs)"
| "diff [x] = []"
| "diff [] = []"

text \<open>
  \<open>ndarray.mean\<close> and \<open>ndarray.std\<close> (population standard deviation, \<open>ddof = 0\<close>): the
  root of the mean of the squared absolute deviations. On an empty array both are nan.
\<close>

definition mean :: "real list \<Rightarrow> real" where
  "mean xs = sum_list xs / real (length xs)"

definition std :: "real list \<Rightarrow> real" where
  "std xs = sqrt (mean (map (\<lambda>x. \<bar>x - mean xs\<bar> ^ 2) xs))"

definition np_mean :: "real list \<Rightarrow> npfloat" where
  "np_mean xs = (if xs = [] then None else Some (mean xs))"

definition np_std :: "real list \<Rightarrow> npfloat" where
  "np_std xs = (if xs = [] then None else Some (std xs))"

fun np_add :: "npfloat \<Rightarrow> npfloat \<Rightarrow> npfloat" where
  "np_add (Some x) (Some y) = Some (x + y)"
| "np_add _ _ = None"

fun np_sub :: "npfloat \<Rightarrow> npfloat \<Rightarrow> npfloat" where
  "np_sub (Some x) (Some y) = Some (x - y)"
| "np_sub _ _ = None"

fun np_le :: "npfloat \<Rightarrow> npfloat \<Rightarrow> bool" where
  "np_le (Some x) (Some y) = (x \<le> y)"
| "np_le _ _ = False"

fun np_gt :: "npfloat \<Rightarrow> npfloat \<Rightarrow> bool" where
  "np_gt (Some x) (Some y) = (x > y)"
| "np_gt _ _ = False"

section \<open>growth\_curve.py: estimate\_parameters\<close>

text \<open>
  The first loop of \<open>estimate_parameters\<close>: the first measurement inside the band
  \<open>capacity_low <= measurement <= capacity_high\<close> replaces the carrying capacity.
\<close>

fun carrying_capacity_loop :: "npfloat \<Rightarrow> npfloat \<Rightarrow> real \<Rightarrow> real list \<Rightarrow> real" where
  "carrying_capacity_loop capacity_low capacity_high carrying_capacity [] = carrying_capacity"
| "carrying_capacity_loop capacity_low capacity_high carrying_capacity (measurement # rest) =
     (if np_le capacity_low (Some measurement) \<and> np_le (Some measurement) capacity_high
      then measurement
      else carrying_capacity_loop capacity_low capacity_high carrying_capacity rest)"

text \<open>
  The second loop, \<open>for i, difference in enumerate(diffs)\<close>, with the loop counter \<open>i\<close>
  and the differences still to visit. It returns \<open>(lag_time, growth_rate)\<close>, both 0 when
  the loop ends without a \<open>break\<close>. The source's array \<open>diffs\<close> is written \<open>diffs'\<close>
  (the name is taken by a constant of the analysis library).
\<close>

fun lag_growth_loop ::
  "real list \<Rightarrow> real list \<Rightarrow> npfloat \<Rightarrow> int \<Rightarrow> real list \<Rightarrow> error + real \<times> real" where
  "lag_growth_loop timestamps diffs' inflection i [] = Inr (0, 0)"
| "lag_growth_loop timestamps diffs' inflection i (difference # rest) =
     (if np_gt (Some difference) inflection then
        (let i = (if i = 0 then i + 1 else i) in
         case py_getitem timestamps (i - 1) of
           Inl err \<Rightarrow> Inl err
         | Inr lag_time \<Rightarrow>
             (case py_max (py_slice diffs' (i - 1) (- 1)) of
                Inl err \<Rightarrow> Inl err
              | Inr growth_rate \<Rightarrow> Inr (lag_time, growth_rate)))
      else lag_growth_loop timestamps diffs' inflection (i + 1) rest)"

definition estimate_parameters :: "real list \<Rightarrow> real list \<Rightarrow> error + real \<times> real \<times> real" where
  "estimate_parameters timestamps measurements =
     (if length timestamps \<noteq> length measurements then Inl ValueError
      else
        let diffs' = diff measurements in
        case py_getitem measurements (- 1) of
          Inl err \<Rightarrow> Inl err
        | Inr last_measurement \<Rightarrow>
           (let capacity_low = np_sub (Some last_measurement) (np_std diffs');
                capacity_high = np_add (Some last_measurement) (np_std diffs');
                carrying_capacity =
                  carrying_capacity_loop capacity_low capacity_high last_measurement measurements;
                inflection = np_add (np_mean diffs') (np_std diffs')
            in case lag_growth_loop timestamps diffs' inflection 0 diffs' of
                 Inl err \<Rightarrow> Inl err
               | Inr (lag_time, growth_rate) \<Rightarrow> Inr (lag_time, growth_rate, carrying_capacity)))"

text \<open>
  The spec's words for the inflection point, used to state what \<open>estimate_parameters\<close>
  returns: the first index whose difference exceeds the threshold.
\<close>

fun first_index_above :: "real \<Rightarrow> real list \<Rightarrow> nat option" where
  "first_index_above threshold [] = None"
| "first_index_above threshold (x # xs) =
     (if x > threshold then Some 0 else map_option Suc (first_index_above threshold xs))"

section \<open>Python floats\<close>

text \<open>
  The arguments and the result of the growth model, and the parameters the optimizer
  returns, are Python floats: a finite real, an infinity or nan. Arithmetic is exact on
  finite values (rounding is not modelled), except that a result beyond the largest finite
  double becomes an infinity. The operators \<open>*\<close>, \<open>/\<close>, \<open>+\<close> and \<open>-\<close> do so silently: they
  raise nothing on overflow. A \<open>Finite\<close> value is a float when it is within that range.
\<close>

datatype pyfloat = Finite real | PosInf | NegInf | NaN

definition float_max :: real where
  "float_max = (2 - 1 / 2 ^ 52) * 2 ^ 1023"

fun is_float :: "pyfloat \<Rightarrow> bool" where
  "is_float (Finite x) = (- float_max \<le> x \<and> x \<le> float_max)"
| "is_float _ = True"

definition overflow :: "real \<Rightarrow> pyfloat" where
  "overflow x =
     (if x > float_max then PosInf else if x < - float_max then NegInf else Finite x)"

fun fl_neg :: "pyfloat \<Rightarrow> pyfloat" where
  "fl_neg (Finite x) = Finite (- x)"
| "fl_neg PosInf = NegInf"
| "fl_neg NegInf = PosInf"
| "fl_neg NaN = NaN"

fun fl_add :: "pyfloat \<Rightarrow> pyfloat \<Rightarrow> pyfloat" where
  "fl_add NaN _ = NaN"
| "fl_add _ NaN = NaN"
| "fl_add (Finite x) (Finite y) = overflow (x + y)"
| "fl_add PosInf NegInf = NaN"
| "fl_add NegInf PosInf = NaN"
| "fl_add PosInf _ = PosInf"
| "fl_add _ PosInf = PosInf"
| "fl_add NegInf _ = NegInf"
| "fl_add _ NegInf = NegInf"

definition fl_sub :: "pyfloat \<Rightarrow> pyfloat \<Rightarrow> pyfloat" where
  "fl_sub x y = fl_add x (fl_neg y)"

fun fl_mul :: "pyfloat \<Rightarrow> pyfloat \<Rightarrow> pyfloat" where
  "fl_mul NaN _ = NaN"
| "fl_mul _ NaN = NaN"
| "fl_mul (Finite x) (Finite y) = overflow (x * y)"
| "fl_mul (Finite x) PosInf = (if x = 0 then NaN else if 0 < x then PosInf else NegInf)"
| "fl_mul (Finite x) NegInf = (if x = 0 then NaN else if 0 < x then NegInf else PosInf)"
| "fl_mul PosInf (Finite y) = (if y = 0 then NaN else if 0 < y then PosInf else NegInf)"
| "fl_mul NegInf (Finite y) = (if y = 0 then NaN else if 0 < y then NegInf else PosInf)"
| "fl_mul PosInf PosInf = PosInf"
| "fl_mul PosInf NegInf = NegInf"
| "fl_mul NegInf PosInf = NegInf"
| "fl_mul NegInf NegInf = PosInf"

text \<open>Division by a divisor that is not zero; \<open>/\<close> raises on a zero divisor before it divides.\<close>

fun fl_div :: "pyfloat \<Rightarrow> pyfloat \<Rightarrow> pyfloat" where
  "fl_div NaN _ = NaN"
| "fl_div _ NaN = NaN"
| "fl_div (Finite x) (Finite y) = overflow (x / y)"
| "fl_div (Finite x) PosInf = Finite 0"
| "fl_div (Finite x) NegInf = Finite 0"
| "fl_div PosInf (Finite y) = (if 0 < y then PosInf else NegInf)"
| "fl_div NegInf (Finite y) = (if 0 < y then NegInf else PosInf)"
| "fl_div _ _ = NaN"

definition py_truediv :: "pyfloat \<Rightarrow> pyfloat \<Rightarrow> error + pyfloat" where
  "py_truediv x y = (if y = Finite 0 then Inl ZeroDivisionError else Inr (fl_div x y))"

text \<open>\<open>x > y\<close>: false whenever either side is nan.\<close>

fun fl_gt :: "pyfloat \<Rightarrow> pyfloat \<Rightarrow> bool" where
  "fl_gt NaN _ = False"
| "fl_gt _ NaN = False"
| "fl_gt (Finite x) (Finite y) = (x > y)"
| "fl_gt PosInf PosInf = False"
| "fl_gt PosInf _ = True"
| "fl_gt _ PosInf = False"
| "fl_gt NegInf _ = False"
| "fl_gt _ NegInf = True"

text \<open>
  \<open>math.exp\<close> raises OverflowError when the exponential of a finite argument exceeds the
  largest finite double; on the infinities and nan it raises nothing. \<open>numpy.exp\<close> and
  \<open>numpy.log\<close> never raise.
\<close>

definition math_e :: real where
  "math_e = exp 1"

fun math_exp :: "pyfloat \<Rightarrow> error + pyfloat" where
  "math_exp (Finite x) = (if exp x > float_max then Inl OverflowError else Inr (Finite (exp x)))"
| "math_exp PosInf = Inr PosInf"
| "math_exp NegInf = Inr (Finite 0)"
| "math_exp NaN = Inr NaN"

fun np_exp :: "pyfloat \<Rightarrow> pyfloat" where
  "np_exp (Finite x) = overflow (exp x)"
| "np_exp PosInf = PosInf"
| "np_exp NegInf = Finite 0"
| "np_exp NaN = NaN"

fun np_log :: "pyfloat \<Rightarrow> pyfloat" where
  "np_log (Finite x) = (if 0 < x then Finite (ln x) else if x = 0 then NegInf else NaN)"
| "np_log PosInf = PosInf"
| "np_log NegInf = NaN"
| "np_log NaN = NaN"

section \<open>growth\_curve.py: the growth model\<close>

text \<open>
  \<open>scipy.special.logsumexp(a)\<close> on a scalar \<open>a\<close>, an array of one element: the largest
  element \<open>a_max\<close> is \<open>a\<close> itself, replaced by 0 when it is not finite; the sum of the
  exponentials of \<open>a - a_max\<close> has one term; the result is its logarithm plus \<open>a_max\<close>.
\<close>

definition logsumexp :: "pyfloat \<Rightarrow> pyfloat" where
  "logsumexp a =
     (let a_max = (case a of Finite x \<Rightarrow> a | _ \<Rightarrow> Finite 0);
          tmp = np_exp (fl_sub a a_max);
          s = tmp;
          out = np_log s
      in fl_add out a_max)"

text \<open>
  \<open>gompertz\<close>: the expression of the \<open>try\<close> block, then the handler
  \<open>except OverflowError: return 0\<close>; any other exception propagates.
\<close>

definition gompertz ::
  "pyfloat \<Rightarrow> pyfloat \<Rightarrow> pyfloat \<Rightarrow> pyfloat \<Rightarrow> pyfloat \<Rightarrow> error + pyfloat" where
  "gompertz elapsed_time initial_size lag_time growth_rate carrying_capacity =
     (case (case py_truediv (fl_mul growth_rate (Finite math_e)) carrying_capacity of
              Inl err \<Rightarrow> Inl err
            | Inr ratio \<Rightarrow>
                (case math_exp (fl_neg (logsumexp
                        (fl_add (fl_mul ratio (fl_sub lag_time elapsed_time)) (Finite 1)))) of
                   Inl err \<Rightarrow> Inl err
                 | Inr v \<Rightarrow> Inr (fl_add initial_size (fl_mul carrying_capacity v)))) of
        Inl OverflowError \<Rightarrow> Inr (Finite 0)
      | Inl err \<Rightarrow> Inl err
      | Inr y \<Rightarrow> Inr y)"

text \<open>
  The reference definition in the spec's words:
  \<open>y(t) = y0 + A * exp(-exp(((mu_max * e) / A) * (lambda - t) + 1))\<close>.
\<close>

definition gompertz_reference :: "real \<Rightarrow> real \<Rightarrow> real \<Rightarrow> real \<Rightarrow> real \<Rightarrow> real" where
  "gompertz_reference t y0 lam mu_max A =
     y0 + A * exp (- exp (((mu_max * math_e) / A) * (lam - t) + 1))"

section \<open>datetime.timedelta\<close>

text \<open>
  A \<open>timedelta\<close> holds a whole number of microseconds. \<open>timedelta(seconds = x)\<close> rounds
  \<open>x\<close> to the nearest microsecond, a tie going to the even one, and raises OverflowError
  when the result is beyond 999999999 days either way, or \<open>x\<close> is infinite, and ValueError
  when \<open>x\<close> is nan.
\<close>

datatype timedelta = Timedelta (microseconds: int)

definition total_seconds :: "timedelta \<Rightarrow> real" where
  "total_seconds delta = real_of_int (microseconds delta) / 10 ^ 6"

definition round_half_even :: "real \<Rightarrow> int" where
  "round_half_even x =
     (if x - of_int \<lfloor>x\<rfloor> < 1 / 2 then \<lfloor>x\<rfloor>
      else if 1 / 2 < x - of_int \<lfloor>x\<rfloor> then \<lfloor>x\<rfloor> + 1
      else if even \<lfloor>x\<rfloor> then \<lfloor>x\<rfloor> else \<lfloor>x\<rfloor> + 1)"

definition timedelta_min :: int where
  "timedelta_min = - 999999999 * 86400 * 1000000"

definition timedelta_max :: int where
  "timedelta_max = 1000000000 * 86400 * 1000000 - 1"

fun timedelta_seconds :: "pyfloat \<Rightarrow> error + timedelta" where
  "timedelta_seconds (Finite x) =
     (if timedelta_min \<le> round_half_even (x * 10 ^ 6)
         \<and> round_half_even (x * 10 ^ 6) \<le> timedelta_max
      then Inr (Timedelta (round_half_even (x * 10 ^ 6)))
      else Inl OverflowError)"
| "timedelta_seconds PosInf = Inl OverflowError"
| "timedelta_seconds NegInf = Inl OverflowError"
| "timedelta_seconds NaN = Inl ValueError"

section \<open>growth\_curve.py: the GrowthCurve class\<close>

text \<open>
  An instance of a subclass of \<open>GrowthCurve\<close> carries the data of its
  \<open>growth_curve_data\<close> property, a dictionary given as its list of items with distinct
  keys and finite measurements, and the four private attributes that \<open>__init_subclass__\<close>
  sets to None.
\<close>

record growth_curve =
  growth_curve_data :: "(timedelta \<times> real) list"
  private_doubling_time :: "timedelta option"
  private_growth_rate :: "pyfloat option"
  private_carrying_capacity :: "pyfloat option"
  private_lag_time :: "timedelta option"

text \<open>
  \<open>scipy.optimize.curve_fit\<close> is a parameter of the model: given the curve function, the
  data and the initial parameters it returns the optimal parameters, which are floats of
  any kind, and their covariance, or raises (RuntimeError when the least-squares
  minimisation fails).
\<close>

type_synonym curve_function =
  "pyfloat \<Rightarrow> pyfloat \<Rightarrow> pyfloat \<Rightarrow> pyfloat \<Rightarrow> pyfloat \<Rightarrow> error + pyfloat"

type_synonym 'cov optimizer =
  "curve_function \<Rightarrow> real list \<Rightarrow> real list \<Rightarrow> real list \<Rightarrow> error + pyfloat list \<times> 'cov"

text \<open>
  \<open>__fit_curve\<close>: RuntimeError is caught and gives None; an OptimizeWarning raised as an
  exception is suppressed by the \<open>with\<close> block, after which the function ends without a
  \<open>return\<close>, so gives None as well.
\<close>

definition fit_curve ::
  "'cov optimizer \<Rightarrow> curve_function \<Rightarrow> real list \<Rightarrow> real list \<Rightarrow> real list
     \<Rightarrow> error + (pyfloat list \<times> 'cov) option" where
  "fit_curve curve_fit curve_function timestamps measurements initial_params =
     (case curve_fit curve_function timestamps measurements initial_params of
        Inr results \<Rightarrow> Inr (Some results)
      | Inl OptimizeWarning \<Rightarrow> Inr None
      | Inl RuntimeError \<Rightarrow> Inr None
      | Inl err \<Rightarrow> Inl err)"

text \<open>
  \<open>fit_growth_curve\<close>. The dictionary is read in the order of its keys. Were an
  OptimizeWarning to leave \<open>__fit_curve\<close>, the outer \<open>with\<close> block would suppress it and
  leave \<open>results\<close> unbound. The optimal parameters are unpacked into four names, which
  raises ValueError for any other number of them. The local \<open>conf\<close>, computed from the
  covariance, is never read and is left out. The three assignments come last, and the
  first of them builds the \<open>timedelta\<close>: when that raises, nothing has been stored, so a
  fit that raises leaves the instance as it was.
\<close>

definition fit_growth_curve ::
  "'cov optimizer \<Rightarrow> real list option \<Rightarrow> growth_curve \<Rightarrow> error + growth_curve" where
  "fit_growth_curve curve_fit initial_params self =
     (let timestamps = map total_seconds (sort_key total_seconds (map fst (growth_curve_data self)));
          measurements = map snd (sort_key (\<lambda>item. total_seconds (fst item)) (growth_curve_data self))
      in case estimate_parameters timestamps measurements of
           Inl err \<Rightarrow> Inl err
         | Inr (lag_time, growth_rate, carrying_capacity) \<Rightarrow>
            (case (case initial_params of
                     None \<Rightarrow>
                       (case py_min measurements of
                          Inl err \<Rightarrow> Inl err
                        | Inr m \<Rightarrow> Inr [m, lag_time, growth_rate, carrying_capacity])
                   | Some params \<Rightarrow> Inr params) of
               Inl err \<Rightarrow> Inl err
             | Inr initial_params \<Rightarrow>
                (case (case fit_curve curve_fit gompertz timestamps measurements initial_params of
                         Inl OptimizeWarning \<Rightarrow> Inl UnboundLocalError
                       | Inl err \<Rightarrow> Inl err
                       | Inr None \<Rightarrow> Inr (Finite 0, Finite 0, Finite 0)
                       | Inr (Some (popt, pcov)) \<Rightarrow>
                           (case popt of
                              [_, lag_time, growth_rate, carrying_capacity] \<Rightarrow>
                                Inr (lag_time, growth_rate, carrying_capacity)
                            | _ \<Rightarrow> Inl ValueError)) of
                   Inl err \<Rightarrow> Inl err
                 | Inr (lag_time, growth_rate, carrying_capacity) \<Rightarrow>
                    (case timedelta_seconds lag_time of
                       Inl err \<Rightarrow> Inl err
                     | Inr lag \<Rightarrow>
                         Inr (self\<lparr>private_lag_time := Some lag,
                                   private_growth_rate := Some growth_rate,
                                   private_carrying_capacity := Some carrying_capacity\<rparr>)))))"

text \<open>
  The properties. A read returns the value, or raises, and either way leaves the instance
  as a fit triggered by the read has made it: both outcomes carry the instance. A property
  returns whatever the attribute holds, hence an option.
\<close>

type_synonym 'a outcome = "error \<times> growth_curve + 'a \<times> growth_curve"

definition carrying_capacity :: "'cov optimizer \<Rightarrow> growth_curve \<Rightarrow> pyfloat option outcome" where
  "carrying_capacity curve_fit self =
     (case (if private_carrying_capacity self = None
            then fit_growth_curve curve_fit None self else Inr self) of
        Inl err \<Rightarrow> Inl (err, self)
      | Inr self \<Rightarrow> Inr (private_carrying_capacity self, self))"

definition growth_rate :: "'cov optimizer \<Rightarrow> growth_curve \<Rightarrow> pyfloat option outcome" where
  "growth_rate curve_fit self =
     (case (if private_growth_rate self = None
            then fit_growth_curve curve_fit None self else Inr self) of
        Inl err \<Rightarrow> Inl (err, self)
      | Inr self \<Rightarrow> Inr (private_growth_rate self, self))"

definition lag_time :: "'cov optimizer \<Rightarrow> growth_curve \<Rightarrow> timedelta option outcome" where
  "lag_time curve_fit self =
     (case (if private_lag_time self = None
            then fit_growth_curve curve_fit None self else Inr self) of
        Inl err \<Rightarrow> Inl (err, self)
      | Inr self \<Rightarrow> Inr (private_lag_time self, self))"

definition instance_after :: "'a outcome \<Rightarrow> growth_curve" where
  "instance_after result = (case result of Inl (err, self) \<Rightarrow> self | Inr (v, self) \<Rightarrow> self)"

text \<open>
  \<open>doubling_time\<close> reads the \<open>growth_rate\<close> property (twice when it is positive; the
  second read finds the attribute set), then builds the \<open>timedelta\<close>. Comparing None with 0
  raises TypeError.
\<close>

definition doubling_time :: "'cov optimizer \<Rightarrow> growth_curve \<Rightarrow> timedelta outcome" where
  "doubling_time curve_fit self =
     (case growth_rate curve_fit self of
        Inl (err, self) \<Rightarrow> Inl (err, self)
      | Inr (None, self) \<Rightarrow> Inl (TypeError, self)
      | Inr (Some rate, self) \<Rightarrow>
         (case (if fl_gt rate (Finite 0) then
                  (case growth_rate curve_fit self of
                     Inl (err, self) \<Rightarrow> Inl (err, self)
                   | Inr (None, self) \<Rightarrow> Inl (TypeError, self)
                   | Inr (Some rate, self) \<Rightarrow>
                       (case py_truediv (Finite (ln 2)) rate of
                          Inl err \<Rightarrow> Inl (err, self)
                        | Inr seconds \<Rightarrow> Inr (seconds, self)))
                else Inr (Finite 0, self)) of
            Inl (err, self) \<Rightarrow> Inl (err, self)
          | Inr (doubling_seconds, self) \<Rightarrow>
              (case timedelta_seconds doubling_seconds of
                 Inl err \<Rightarrow> Inl (err, self)
               | Inr delta \<Rightarrow> Inr (delta, self))))"

text \<open>
  Sample inputs for the instances below: an instance not yet fitted, holding two
  measurements out of order (at 1 second and at 0 seconds), an optimizer that never
  converges, one that returns the parameters \<open>[2, 3, 4, 5]\<close> and one that returns the
  growth rate \<open>1e-15\<close>.
\<close>

definition sample_curve :: growth_curve where
  "sample_curve =
     \<lparr>growth_curve_data = [(Timedelta 1000000, 5), (Timedelta 0, 2)],
      private_doubling_time = None,
      private_growth_rate = None,
      private_carrying_capacity = None,
      private_lag_time = None\<rparr>"

definition failing_fit :: "unit optimizer" where
  "failing_fit curve_function timestamps measurements initial_params = Inl RuntimeError"

definition converging_fit :: "unit optimizer" where
  "converging_fit curve_function timestamps measurements initial_params =
     Inr ([Finite 2, Finite 3, Finite 4, Finite 5], ())"


section \<open>colony.py: clustering detections into colonies\<close>

text \<open>
  The detection record of the tests' \<open>Colony.Timepoint\<close> and the colony track built from
  a group of detections.
\<close>

record timepoint =
  timestamp :: timedelta
  area :: real
  center :: "real \<times> real"
  diameter :: real
  perimeter :: real
  color_average :: "real \<times> real \<times> real"

record colony =
  colony_id :: nat
  timepoints :: "timepoint list"

text \<open>
  Modelled from the spec: \<open>colonies_from_timepoints\<close> (the spec's \<open>cluster\<close>) lives in
  \<open>colonyscanalyser/colony.py\<close>, which is not among the sources; only its test is. The
  spec's words: two detections are directly linked when their Euclidean distance is at most
  \<open>distance\<close>; the groups are the connected components of that relation; each group
  becomes a new colony track with a freshly assigned sequential id (numbered from 1 here);
  an empty input collection fails with InvalidArgument, which the test expects as
  ValueError.
\<close>

definition linked :: "real \<Rightarrow> timepoint \<Rightarrow> timepoint \<Rightarrow> bool" where
  "linked distance p q =
     (sqrt ((fst (center p) - fst (center q)) ^ 2 + (snd (center p) - snd (center q)) ^ 2)
        \<le> distance)"

definition add_detection :: "real \<Rightarrow> timepoint \<Rightarrow> timepoint list list \<Rightarrow> timepoint list list" where
  "add_detection distance p groups =
     (p # concat (filter (list_ex (linked distance p)) groups))
       # filter (\<lambda>g. \<not> list_ex (linked distance p) g) groups"

definition connected_groups :: "real \<Rightarrow> timepoint list \<Rightarrow> timepoint list list" where
  "connected_groups distance detections = foldr (add_detection distance) detections []"

definition colonies_from_timepoints :: "timepoint list \<Rightarrow> real \<Rightarrow> error + colony list" where
  "colonies_from_timepoints detections distance =
     (if detections = [] then Inl ValueError
      else
        let groups = connected_groups distance detections
        in Inr (map (\<lambda>(i, g). \<lparr>colony_id = i, timepoints = g\<rparr>)
                  (zip [1 ..< Suc (length groups)] groups)))"

section \<open>Properties of index\_number\_to\_coordinate\<close>

lemma div_bound:
  fixes a c r :: int
  assumes "0 < c"
  shows "(a div c < r) = (a < r * c)"
proof -
  define q where "q = a div c"
  define m where "m = a mod c"
  have split: "a = c * q + m"
    by (simp add: q_def m_def)
  have m: "0 \<le> m" "m < c"
    using assms by (simp_all add: m_def)
  have "a < r * c" if "q < r"
  proof -
    from that have "c * (q + 1) \<le> c * r"
      using assms by (intro mult_left_mono) simp_all
    then show ?thesis
      using split m by (simp add: algebra_simps)
  qed
  moreover have "q < r" if "a < r * c"
  proof (rule ccontr)
    assume "\<not> q < r"
    then have "c * r \<le> c * q"
      using assms by (intro mult_left_mono) simp_all
    moreover from that have "a < c * r"
      by (simp add: mult.commute)
    ultimately show False
      using split m by linarith
  qed
  ultimately show ?thesis
    unfolding q_def by blast
qed

lemma coordinate_valid:
  assumes "1 \<le> rows" "1 \<le> cols" "1 \<le> index" "index \<le> rows * cols"
  shows "index_number_to_coordinate index (rows, cols) =
           Inr ((index - 1) div cols + 1, (index - 1) mod cols + 1)"
proof -
  have "(index - 1) div cols < rows"
    using assms by (simp add: div_bound)
  moreover have "(index - 1) mod cols < cols"
    using assms by simp
  ultimately show ?thesis
    using assms by (simp add: index_number_to_coordinate_def Let_def not_less [symmetric])
qed

lemma coordinate_exceeds:
  assumes "1 \<le> rows" "1 \<le> cols" "1 \<le> index" "rows * cols < index"
  shows "index_number_to_coordinate index (rows, cols) = Inl IndexError"
proof -
  have "\<not> (index - 1) div cols < rows"
    using assms by (simp add: div_bound)
  then show ?thesis
    using assms by (simp add: index_number_to_coordinate_def Let_def)
qed

text \<open>
  Claim C9. On a lattice with at least one row and one column, every index from 1 to
  \<open>rows * cols\<close> gives a coordinate \<open>(row, col)\<close> inside the lattice with
  \<open>(row - 1) * cols + col = index\<close> and no error; an index, row count or column count
  below 1 raises ValueError; otherwise IndexError is raised exactly when the computed
  coordinate exceeds the lattice, which every index above \<open>rows * cols\<close> does.
\<close>

theorem index_number_to_coordinate_correct:
  "(1 \<le> rows \<and> 1 \<le> cols \<and> 1 \<le> index \<and> index \<le> rows * cols \<longrightarrow>
      (\<exists>row col. index_number_to_coordinate index (rows, cols) = Inr (row, col)
         \<and> 1 \<le> row \<and> row \<le> rows \<and> 1 \<le> col \<and> col \<le> cols
         \<and> (row - 1) * cols + col = index))
   \<and> (index < 1 \<or> rows < 1 \<or> cols < 1 \<longrightarrow>
        index_number_to_coordinate index (rows, cols) = Inl ValueError)
   \<and> (1 \<le> rows \<and> 1 \<le> cols \<and> 1 \<le> index \<longrightarrow>
        (index_number_to_coordinate index (rows, cols) = Inl IndexError) =
        (rows < (index - 1) div cols + 1 \<or> cols < (index - 1) mod cols + 1))
   \<and> (1 \<le> rows \<and> 1 \<le> cols \<and> 1 \<le> index \<and> rows * cols < index \<longrightarrow>
        index_number_to_coordinate index (rows, cols) = Inl IndexError)"
proof (intro conjI impI)
  assume a: "1 \<le> rows \<and> 1 \<le> cols \<and> 1 \<le> index \<and> index \<le> rows * cols"
  let ?row = "(index - 1) div cols + 1" and ?col = "(index - 1) mod cols + 1"
  have r: "index_number_to_coordinate index (rows, cols) = Inr (?row, ?col)"
    using a coordinate_valid by simp
  have "(index - 1) div cols < rows"
    using a by (simp add: div_bound)
  moreover have "0 \<le> (index - 1) div cols"
    using a by (simp add: pos_imp_zdiv_nonneg_iff)
  moreover have "0 \<le> (index - 1) mod cols" "(index - 1) mod cols < cols"
    using a by simp_all
  moreover have "(?row - 1) * cols + ?col = index"
    by simp
  ultimately show "\<exists>row col. index_number_to_coordinate index (rows, cols) = Inr (row, col)
         \<and> 1 \<le> row \<and> row \<le> rows \<and> 1 \<le> col \<and> col \<le> cols
         \<and> (row - 1) * cols + col = index"
    using r by (intro exI[of _ ?row] exI[of _ ?col]) simp
next
  assume "index < 1 \<or> rows < 1 \<or> cols < 1"
  then show "index_number_to_coordinate index (rows, cols) = Inl ValueError"
    by (auto simp add: index_number_to_coordinate_def)
next
  assume "1 \<le> rows \<and> 1 \<le> cols \<and> 1 \<le> index"
  then show "(index_number_to_coordinate index (rows, cols) = Inl IndexError) =
        (rows < (index - 1) div cols + 1 \<or> cols < (index - 1) mod cols + 1)"
    by (simp add: index_number_to_coordinate_def Let_def)
next
  assume "1 \<le> rows \<and> 1 \<le> cols \<and> 1 \<le> index \<and> rows * cols < index"
  then show "index_number_to_coordinate index (rows, cols) = Inl IndexError"
    using coordinate_exceeds by simp
qed

text \<open>The three outcomes on a lattice of two rows and three columns.\<close>

theorem index_number_to_coordinate_correct_witness:
  "index_number_to_coordinate 5 (2, 3) = Inr (2, 2)
   \<and> index_number_to_coordinate 0 (2, 3) = Inl ValueError
   \<and> index_number_to_coordinate 7 (2, 3) = Inl IndexError"
  using index_number_to_coordinate_correct [of 2 3 5]
    index_number_to_coordinate_correct [of 2 3 0]
    index_number_to_coordinate_correct [of 2 3 7]
  by (simp add: index_number_to_coordinate_def)

section \<open>Properties of estimate\_parameters\<close>

lemma length_diff: "length (diff xs) = length xs - 1"
  by (induction xs rule: diff.induct) simp_all

lemma first_index_above_None:
  "(first_index_above t xs = None) = (\<forall>x\<in>set xs. \<not> x > t)"
  by (induction xs) auto

lemma first_index_above_Some:
  "first_index_above t xs = Some k \<Longrightarrow>
     k < length xs \<and> xs ! k > t \<and> (\<forall>j<k. \<not> xs ! j > t)"
proof (induction xs arbitrary: k)
  case Nil
  then show ?case by simp
next
  case (Cons x xs)
  show ?case
  proof (cases "x > t")
    case True
    with Cons.prems show ?thesis by simp
  next
    case False
    with Cons.prems obtain k' where k': "first_index_above t xs = Some k'" "k = Suc k'"
      by auto
    from Cons.IH [OF k'(1)] False k'(2) show ?thesis
      by (auto simp add: less_Suc_eq_0_disj)
  qed
qed

text \<open>The break of the loop at counter n.\<close>

lemma lag_growth_loop_break:
  assumes "np_gt (Some x) thr"
  shows "lag_growth_loop ts ds thr (int n) (x # rest) =
           (if n - 1 < length ts then
              (case py_max (py_slice ds (int (n - 1)) (- 1)) of
                 Inl err \<Rightarrow> Inl err
               | Inr g \<Rightarrow> Inr (ts ! (n - 1), g))
            else Inl IndexError)"
proof (cases n)
  case 0
  then show ?thesis
    using assms by (simp add: py_getitem_def split: sum.splits)
next
  case (Suc m)
  then have "int n - 1 = int m" "int n \<noteq> 0"
    by simp_all
  then show ?thesis
    using assms Suc by (simp add: py_getitem_def split: sum.splits)
qed

lemma lag_growth_loop_first:
  "lag_growth_loop ts ds (Some t) (int n) rest =
     (case first_index_above t rest of
        None \<Rightarrow> Inr (0, 0)
      | Some k \<Rightarrow>
          if n + k - 1 < length ts then
            (case py_max (py_slice ds (int (n + k - 1)) (- 1)) of
               Inl err \<Rightarrow> Inl err
             | Inr g \<Rightarrow> Inr (ts ! (n + k - 1), g))
          else Inl IndexError)"
proof (induction rest arbitrary: n)
  case Nil
  then show ?case by simp
next
  case (Cons x rest)
  show ?case
  proof (cases "x > t")
    case True
    then have gt: "np_gt (Some x) (Some t)" by simp
    show ?thesis
      unfolding lag_growth_loop_break [OF gt] using True by (simp split: sum.splits)
  next
    case False
    then have step: "lag_growth_loop ts ds (Some t) (int n) (x # rest) =
        lag_growth_loop ts ds (Some t) (int (Suc n)) rest"
      by (simp add: add.commute)
    show ?thesis
      unfolding step Cons.IH [of "Suc n"] using False
      by (simp split: option.splits cong: sum.case_cong)
  qed
qed

lemma lag_growth_loop_nan: "lag_growth_loop ts ds None i rest = Inr (0, 0)"
  by (induction rest arbitrary: i) simp_all


lemma py_max_Max: "xs \<noteq> [] \<Longrightarrow> py_max xs = Inr (Max (set xs))"
  using Max.set_eq_fold [of "hd xs" "tl xs"] by (cases xs) simp_all

lemma py_slice_to_last:
  assumes "j < length ds"
  shows "py_slice ds (int j) (- 1) = take (length ds - 1 - j) (drop j ds)"
proof -
  have "nat (int (length ds) - 1 - int j) = length ds - 1 - j"
    using assms by simp
  then show ?thesis
    using assms by (simp add: py_slice_def Let_def algebra_simps)
qed

lemma mean_single: "mean [x] = x"
  by (simp add: mean_def)

lemma std_single: "std [x] = 0"
  by (simp add: std_def mean_def)

lemma first_index_above_single:
  "length ds = 1 \<Longrightarrow> first_index_above (mean ds + std ds) ds = None"
proof -
  assume "length ds = 1"
  then obtain x where "ds = [x]"
    by (cases ds) simp_all
  then show ?thesis
    by (simp add: mean_single std_single)
qed

lemma py_getitem_last: "xs \<noteq> [] \<Longrightarrow> py_getitem xs (- 1) = Inr (last xs)"
  by (simp add: py_getitem_def last_conv_nth nat_diff_distrib Suc_leI)

lemma py_getitem_empty: "py_getitem [] i = Inl IndexError"
  by (simp add: py_getitem_def)

text \<open>What the second loop of estimate\_parameters returns.\<close>

lemma lag_growth_loop_result:
  assumes "length ts = Suc (length ds)"
  shows "lag_growth_loop ts ds (np_add (np_mean ds) (np_std ds)) 0 ds =
           (case first_index_above (mean ds + std ds) ds of
              None \<Rightarrow> Inr (0, 0)
            | Some k \<Rightarrow>
                Inr (ts ! (k - 1), Max (set (take (length ds - 1 - (k - 1)) (drop (k - 1) ds)))))"
proof (cases "ds = []")
  case True
  then show ?thesis
    by (simp add: np_mean_def np_std_def)
next
  case False
  then have thr: "np_add (np_mean ds) (np_std ds) = Some (mean ds + std ds)"
    by (simp add: np_mean_def np_std_def)
  show ?thesis
  proof (cases "first_index_above (mean ds + std ds) ds")
    case None
    then show ?thesis
      using lag_growth_loop_first [of ts ds "mean ds + std ds" 0 ds] thr by simp
  next
    case (Some k)
    then have k: "k < length ds"
      using first_index_above_Some by blast
    have "length ds \<noteq> 1"
      using first_index_above_single [of ds] Some by auto
    moreover have "length ds \<noteq> 0"
      using False by simp
    ultimately have inside: "k - 1 < length ds - 1"
      using k by linarith
    then have "take (length ds - 1 - (k - 1)) (drop (k - 1) ds) \<noteq> []"
      by (simp add: not_le) linarith
    then have "py_max (py_slice ds (int (k - 1)) (- 1)) =
        Inr (Max (set (take (length ds - 1 - (k - 1)) (drop (k - 1) ds))))"
      using inside by (simp add: py_slice_to_last py_max_Max)
    moreover have "k - 1 < length ts"
      using k assms by simp
    ultimately show ?thesis
      using lag_growth_loop_first [of ts ds "mean ds + std ds" 0 ds] thr Some by simp
  qed
qed

lemma estimate_parameters_result:
  assumes "length ts = length ms" "ms \<noteq> []"
  shows "estimate_parameters ts ms =
           (let ds = diff ms;
                cc = carrying_capacity_loop (np_sub (Some (last ms)) (np_std ds))
                       (np_add (Some (last ms)) (np_std ds)) (last ms) ms
            in case first_index_above (mean ds + std ds) ds of
                 None \<Rightarrow> Inr (0, 0, cc)
               | Some k \<Rightarrow>
                   Inr (ts ! (k - 1),
                        Max (set (take (length ds - 1 - (k - 1)) (drop (k - 1) ds))), cc))"
proof -
  have "length ts = Suc (length (diff ms))"
    using assms by (simp add: length_diff)
  from lag_growth_loop_result [OF this] assms show ?thesis
    by (simp add: estimate_parameters_def py_getitem_last Let_def split: option.splits)
qed

lemma first_index_above_eq:
  "i < length xs \<Longrightarrow> t < xs ! i \<Longrightarrow> \<forall>j<i. \<not> t < xs ! j \<Longrightarrow> first_index_above t xs = Some i"
proof (induction xs arbitrary: i)
  case Nil
  then show ?case by simp
next
  case (Cons x xs)
  show ?case
  proof (cases i)
    case 0
    with Cons.prems show ?thesis by simp
  next
    case (Suc m)
    have "0 < i" using Suc by simp
    with Cons.prems(3) have "\<not> t < (x # xs) ! 0"
      by blast
    then have head: "\<not> t < x"
      by simp
    have m: "m < length xs" "t < xs ! m"
      using Cons.prems(1,2) Suc by simp_all
    have "\<forall>j<m. \<not> t < xs ! j"
    proof (intro allI impI)
      fix j
      assume "j < m"
      then have "Suc j < i" using Suc by simp
      with Cons.prems(3) have "\<not> t < (x # xs) ! Suc j"
        by blast
      then show "\<not> t < xs ! j" by simp
    qed
    with m have "first_index_above t xs = Some m"
      by (rule Cons.IH)
    with head Suc show ?thesis
      by simp
  qed
qed

lemma first_index_above_none_eq:
  assumes "\<forall>j<length xs. \<not> t < xs ! j"
  shows "first_index_above t xs = None"
proof -
  have "\<not> t < x" if "x \<in> set xs" for x
  proof -
    from that obtain j where "j < length xs" "xs ! j = x"
      by (auto simp add: in_set_conv_nth)
    with assms show ?thesis by blast
  qed
  then show ?thesis
    by (simp add: first_index_above_None)
qed

lemma Max_window:
  assumes "j < length ds - 1"
  shows "Max (set (take (length ds - 1 - j) (drop j ds))) \<in> set (drop j ds)"
    and "\<forall>k. j \<le> k \<and> k < length ds - 1 \<longrightarrow>
           ds ! k \<le> Max (set (take (length ds - 1 - j) (drop j ds)))"
proof -
  let ?w = "take (length ds - 1 - j) (drop j ds)"
  have ne: "?w \<noteq> []"
    using assms by (simp add: not_le) linarith
  then have "Max (set ?w) \<in> set ?w"
    by (intro Max_in) simp_all
  then show "Max (set ?w) \<in> set (drop j ds)"
    using in_set_takeD by fast
  show "\<forall>k. j \<le> k \<and> k < length ds - 1 \<longrightarrow> ds ! k \<le> Max (set ?w)"
  proof (intro allI impI)
    fix k
    assume k: "j \<le> k \<and> k < length ds - 1"
    then have len: "k - j < length ?w"
      by simp linarith
    have "?w ! (k - j) = drop j ds ! (k - j)"
      using len by simp
    also have "\<dots> = ds ! (j + (k - j))"
      using k assms by (intro nth_drop) linarith
    also have "\<dots> = ds ! k"
      using k by simp
    finally have "?w ! (k - j) = ds ! k" .
    with len have "?w ! (k - j) = ds ! k" "k - j < length ?w"
      by simp_all
    then have "ds ! k \<in> set ?w"
      using nth_mem [of "k - j" ?w] by simp
    then show "ds ! k \<le> Max (set ?w)"
      by simp
  qed
qed

text \<open>
  Claim C3, as amended. For timestamps and measurements of equal, non-zero length, with the
  threshold \<open>mean(diffs) + std(diffs)\<close>: at the first index \<open>i\<close> whose difference exceeds the
  threshold, the returned lag time is the timestamp preceding that index (the first
  timestamp when \<open>i = 0\<close>), and the returned growth rate is one of the differences from the
  position of that timestamp onward and is at least every difference from there up to the
  one before the last. If no difference exceeds the threshold, both are 0.
\<close>

theorem estimate_parameters_inflection:
  assumes "length timestamps = length measurements" and "measurements \<noteq> []"
  shows "(\<forall>i. i < length (diff measurements)
            \<and> mean (diff measurements) + std (diff measurements) < diff measurements ! i
            \<and> (\<forall>j<i. \<not> mean (diff measurements) + std (diff measurements) < diff measurements ! j)
          \<longrightarrow> (\<exists>g c. estimate_parameters timestamps measurements =
                        Inr (timestamps ! (if i = 0 then 0 else i - 1), g, c)
                 \<and> g \<in> set (drop (i - 1) (diff measurements))
                 \<and> (\<forall>k. i - 1 \<le> k \<and> k < length (diff measurements) - 1 \<longrightarrow>
                        diff measurements ! k \<le> g)))
       \<and> ((\<forall>j<length (diff measurements).
              \<not> mean (diff measurements) + std (diff measurements) < diff measurements ! j)
          \<longrightarrow> (\<exists>c. estimate_parameters timestamps measurements = Inr (0, 0, c)))"
proof (intro conjI allI impI)
  fix i
  let ?ds = "diff measurements"
  let ?thr = "mean ?ds + std ?ds"
  assume i: "i < length ?ds \<and> ?thr < ?ds ! i \<and> (\<forall>j<i. \<not> ?thr < ?ds ! j)"
  then have first: "first_index_above ?thr ?ds = Some i"
    using first_index_above_eq by blast
  have "length ?ds \<noteq> 1"
    using first_index_above_single [of ?ds] first by auto
  then have inside: "i - 1 < length ?ds - 1"
    using i by linarith
  let ?g = "Max (set (take (length ?ds - 1 - (i - 1)) (drop (i - 1) ?ds)))"
  let ?c = "carrying_capacity_loop (np_sub (Some (last measurements)) (np_std ?ds))
          (np_add (Some (last measurements)) (np_std ?ds)) (last measurements) measurements"
  have "estimate_parameters timestamps measurements = Inr (timestamps ! (i - 1), ?g, ?c)"
    using estimate_parameters_result [OF assms] first by (simp add: Let_def)
  moreover have "(if i = 0 then 0 else i - 1) = i - 1"
    by simp
  ultimately have "estimate_parameters timestamps measurements =
                        Inr (timestamps ! (if i = 0 then 0 else i - 1), ?g, ?c)
                 \<and> ?g \<in> set (drop (i - 1) ?ds)
                 \<and> (\<forall>k. i - 1 \<le> k \<and> k < length ?ds - 1 \<longrightarrow> ?ds ! k \<le> ?g)"
    using Max_window [OF inside] by simp
  then show "\<exists>g c. estimate_parameters timestamps measurements =
                        Inr (timestamps ! (if i = 0 then 0 else i - 1), g, c)
                 \<and> g \<in> set (drop (i - 1) ?ds)
                 \<and> (\<forall>k. i - 1 \<le> k \<and> k < length ?ds - 1 \<longrightarrow> ?ds ! k \<le> g)"
    by blast
next
  let ?ds = "diff measurements"
  let ?thr = "mean ?ds + std ?ds"
  assume "\<forall>j<length ?ds. \<not> ?thr < ?ds ! j"
  then have "first_index_above ?thr ?ds = None"
    by (rule first_index_above_none_eq)
  then show "\<exists>c. estimate_parameters timestamps measurements = Inr (0, 0, c)"
    using estimate_parameters_result [OF assms] by (simp add: Let_def)
qed

text \<open>
  An instance: the differences are \<open>[0, 5, 0, 0, 0]\<close>, with mean 1 and standard deviation 2,
  so the second one is the first above the threshold 3.
\<close>

lemma mean_example_mid: "mean [0, 5, 0, 0, 0] = 1"
  by (simp add: mean_def)

lemma std_example_mid: "std [0, 5, 0, 0, 0] = 2"
  by (simp add: std_def mean_def)

theorem estimate_parameters_inflection_witness:
  "length [10, 20, 30, 40, 50, 60 :: real] = length [0, 0, 5, 5, 5, 5 :: real]
   \<and> [0, 0, 5, 5, 5, 5 :: real] \<noteq> []
   \<and> mean (diff [0, 0, 5, 5, 5, 5]) + std (diff [0, 0, 5, 5, 5, 5]) < diff [0, 0, 5, 5, 5, 5] ! 1
   \<and> \<not> mean (diff [0, 0, 5, 5, 5, 5]) + std (diff [0, 0, 5, 5, 5, 5]) < diff [0, 0, 5, 5, 5, 5] ! 0
   \<and> (\<exists>g c. estimate_parameters [10, 20, 30, 40, 50, 60] [0, 0, 5, 5, 5, 5] = Inr (10, g, c)
          \<and> g \<in> set (diff [0, 0, 5, 5, 5, 5])
          \<and> diff [0, 0, 5, 5, 5, 5] ! 1 \<le> g)"
proof -
  let ?ts = "[10, 20, 30, 40, 50, 60 :: real]"
  let ?ms = "[0, 0, 5, 5, 5, 5 :: real]"
  have len: "length ?ts = length ?ms" and ne: "?ms \<noteq> []"
    by simp_all
  have thr: "mean (diff ?ms) + std (diff ?ms) = 3"
    by (simp add: mean_example_mid std_example_mid)
  have above: "mean (diff ?ms) + std (diff ?ms) < diff ?ms ! 1"
    unfolding thr by simp
  have below: "\<not> mean (diff ?ms) + std (diff ?ms) < diff ?ms ! 0"
    unfolding thr by simp
  have first: "(1::nat) < length (diff ?ms)
      \<and> mean (diff ?ms) + std (diff ?ms) < diff ?ms ! 1
      \<and> (\<forall>j<1. \<not> mean (diff ?ms) + std (diff ?ms) < diff ?ms ! j)"
    using above below by simp
  from estimate_parameters_inflection [OF len ne] first
  obtain g c where r: "estimate_parameters ?ts ?ms = Inr (?ts ! (if (1::nat) = 0 then 0 else 1 - 1), g, c)"
    "g \<in> set (drop (1 - 1) (diff ?ms))"
    "\<forall>k. 1 - 1 \<le> k \<and> k < length (diff ?ms) - 1 \<longrightarrow> diff ?ms ! k \<le> g"
    by blast
  have "(1::nat) - 1 \<le> 1 \<and> 1 < length (diff ?ms) - 1"
    by simp
  with r(3) have "diff ?ms ! 1 \<le> g"
    by blast
  moreover from r(2) have "g \<in> set (diff ?ms)"
    by simp
  moreover from r(1) have "estimate_parameters ?ts ?ms = Inr (10, g, c)"
    by simp
  ultimately show ?thesis
    using above below by (intro conjI exI [of _ g] exI [of _ c]) simp_all
qed


text \<open>
  Claim C3 as stated fails. The differences are \<open>[0, 9, 10, 0, 0]\<close>; the second one, 9, is
  the first above the threshold; the largest difference up to and including it is 9, but
  the growth rate returned is 10, the largest of \<open>diffs[0:-1]\<close>.
\<close>

lemma mean_example_late: "mean [0, 9, 10, 0, 0] = 19 / 5"
  by (simp add: mean_def)

lemma std_example_late: "0 \<le> std [0, 9, 10, 0, 0] \<and> std [0, 9, 10, 0, 0] < 5"
proof -
  have "std [0, 9, 10, 0, 0] = sqrt (544 / 25)"
    by (simp add: std_def mean_def power2_eq_square)
  moreover have "sqrt (544 / 25) < sqrt (5\<^sup>2)"
    by (intro real_sqrt_less_mono) simp
  ultimately show ?thesis
    by simp
qed

theorem estimate_parameters_growth_rate_counterexample:
  "mean (diff [0, 0, 9, 19, 19, 19]) + std (diff [0, 0, 9, 19, 19, 19])
     < diff [0, 0, 9, 19, 19, 19] ! 1
   \<and> \<not> mean (diff [0, 0, 9, 19, 19, 19]) + std (diff [0, 0, 9, 19, 19, 19])
         < diff [0, 0, 9, 19, 19, 19] ! 0
   \<and> Max (set (take (Suc 1) (diff [0, 0, 9, 19, 19, 19]))) = 9
   \<and> estimate_parameters [10, 20, 30, 40, 50, 60] [0, 0, 9, 19, 19, 19] = Inr (10, 10, 19)"
proof -
  let ?ts = "[10, 20, 30, 40, 50, 60 :: real]"
  let ?ms = "[0, 0, 9, 19, 19, 19 :: real]"
  define s where "s = std [0, 9, 10, 0, 0]"
  have s: "0 \<le> s" "s < 5"
    using std_example_late by (simp_all add: s_def)
  have thr: "mean (diff ?ms) + std (diff ?ms) = 19 / 5 + s"
    by (simp add: mean_example_late s_def)
  have above: "mean (diff ?ms) + std (diff ?ms) < diff ?ms ! 1"
    unfolding thr using s by simp
  have below: "\<not> mean (diff ?ms) + std (diff ?ms) < diff ?ms ! 0"
    unfolding thr using s by simp
  have first: "first_index_above (mean (diff ?ms) + std (diff ?ms)) (diff ?ms) = Some 1"
    using above below by (intro first_index_above_eq) simp_all
  have window: "Max (set (take (length (diff ?ms) - 1 - (1 - 1)) (drop (1 - 1) (diff ?ms)))) = 10"
    by simp
  have nps: "np_std (diff ?ms) = Some s"
    by (simp add: np_std_def s_def)
  have cc: "carrying_capacity_loop (np_sub (Some (last ?ms)) (np_std (diff ?ms)))
      (np_add (Some (last ?ms)) (np_std (diff ?ms))) (last ?ms) ?ms = 19"
    unfolding nps using s by simp
  have "estimate_parameters ?ts ?ms = Inr (10, 10, 19)"
    using estimate_parameters_result [of ?ts ?ms] first window cc
    by (simp add: Let_def)
  moreover have "Max (set (take (Suc 1) (diff ?ms))) = 9"
    by simp
  ultimately show ?thesis
    using above below by blast
qed


text \<open>
  With equal lengths the function raises only for empty input, where \<open>measurements[-1]\<close>
  is out of range; otherwise it returns.
\<close>

lemma estimate_parameters_empty: "estimate_parameters [] [] = Inl IndexError"
  by (simp add: estimate_parameters_def py_getitem_empty)

lemma estimate_parameters_returns:
  assumes "length ts = length ms" "ms \<noteq> []"
  shows "\<exists>r. estimate_parameters ts ms = Inr r"
  using estimate_parameters_result [OF assms] by (simp add: Let_def split: option.splits)

text \<open>
  Claim C6. \<open>estimate_parameters\<close> raises ValueError whenever the timestamps and the
  measurements differ in length, and for no other input: the length comparison is the only
  check it makes.
\<close>

theorem estimate_parameters_length_check:
  "(estimate_parameters timestamps measurements = Inl ValueError)
     = (length timestamps \<noteq> length measurements)"
proof (cases "length timestamps = length measurements")
  case False
  then show ?thesis
    by (simp add: estimate_parameters_def)
next
  case True
  show ?thesis
  proof (cases "measurements = []")
    case True
    with \<open>length timestamps = length measurements\<close> show ?thesis
      by (simp add: estimate_parameters_empty)
  next
    case False
    with True estimate_parameters_returns [of timestamps measurements] show ?thesis
      by auto
  qed
qed

text \<open>One input of each kind.\<close>

theorem estimate_parameters_length_check_witness:
  "estimate_parameters [1, 2] [1] = Inl ValueError
   \<and> estimate_parameters [1] [1] \<noteq> Inl ValueError"
  using estimate_parameters_length_check [of "[1, 2]" "[1]"]
    estimate_parameters_length_check [of "[1]" "[1]"]
  by simp

text \<open>
  Claim C10. When the first difference is the one that exceeds the threshold, the returned
  lag time is the first timestamp. More generally, at whatever counter \<open>n\<close> the loop breaks,
  the timestamp is read at the position \<open>n - 1\<close> counted from the front, or at position 0
  when \<open>n = 0\<close>: the index passed to the lookup is never negative, so the lookup never
  counts from the end of the list.
\<close>

theorem estimate_parameters_first_difference:
  "(length timestamps = length measurements \<and> diff measurements \<noteq> []
      \<and> mean (diff measurements) + std (diff measurements) < hd (diff measurements)
     \<longrightarrow> (\<exists>g c. estimate_parameters timestamps measurements = Inr (timestamps ! 0, g, c)))
   \<and> (np_gt (Some difference) inflection \<longrightarrow>
        lag_growth_loop timestamps diffs' inflection (int n) (difference # rest) =
          (if (if n = 0 then 0 else n - 1) < length timestamps then
             (case py_max (py_slice diffs' (int (if n = 0 then 0 else n - 1)) (- 1)) of
                Inl err \<Rightarrow> Inl err
              | Inr g \<Rightarrow> Inr (timestamps ! (if n = 0 then 0 else n - 1), g))
           else Inl IndexError))"
proof (intro conjI impI)
  let ?ds = "diff measurements"
  assume a: "length timestamps = length measurements \<and> ?ds \<noteq> []
      \<and> mean ?ds + std ?ds < hd ?ds"
  then have "hd ?ds = ?ds ! 0"
    by (intro hd_conv_nth) simp
  with a have "0 < length ?ds" "mean ?ds + std ?ds < ?ds ! 0"
    by simp_all
  then have first: "first_index_above (mean ?ds + std ?ds) ?ds = Some 0"
    by (intro first_index_above_eq) simp_all
  have "measurements \<noteq> []"
    using a by auto
  with a estimate_parameters_result [of timestamps measurements] first
  show "\<exists>g c. estimate_parameters timestamps measurements = Inr (timestamps ! 0, g, c)"
    by (simp add: Let_def)
next
  assume gt: "np_gt (Some difference) inflection"
  have eq: "(if n = 0 then 0 else n - 1) = n - 1"
    by simp
  show "lag_growth_loop timestamps diffs' inflection (int n) (difference # rest) =
          (if (if n = 0 then 0 else n - 1) < length timestamps then
             (case py_max (py_slice diffs' (int (if n = 0 then 0 else n - 1)) (- 1)) of
                Inl err \<Rightarrow> Inl err
              | Inr g \<Rightarrow> Inr (timestamps ! (if n = 0 then 0 else n - 1), g))
           else Inl IndexError)"
    unfolding eq by (rule lag_growth_loop_break [OF gt])
qed

text \<open>
  An instance: the differences are \<open>[5, 0, 0, 0, 0]\<close>, with threshold 3, and the lag time is
  the first timestamp, 10.
\<close>

lemma mean_example_first: "mean [5, 0, 0, 0, 0] = 1"
  by (simp add: mean_def)

lemma std_example_first: "std [5, 0, 0, 0, 0] = 2"
  by (simp add: std_def mean_def)

theorem estimate_parameters_first_difference_witness:
  "length [10, 20, 30, 40, 50, 60 :: real] = length [0, 5, 5, 5, 5, 5 :: real]
   \<and> diff [0, 5, 5, 5, 5, 5] \<noteq> []
   \<and> mean (diff [0, 5, 5, 5, 5, 5]) + std (diff [0, 5, 5, 5, 5, 5]) < hd (diff [0, 5, 5, 5, 5, 5])
   \<and> (\<exists>g c. estimate_parameters [10, 20, 30, 40, 50, 60] [0, 5, 5, 5, 5, 5] = Inr (10, g, c))
   \<and> np_gt (Some 5) (Some 3)
   \<and> lag_growth_loop [10, 20, 30, 40, 50, 60] [5, 0, 0, 0, 0] (Some 3) 0 [5, 0, 0, 0, 0]
       = Inr (10, 5)"
proof -
  let ?ts = "[10, 20, 30, 40, 50, 60 :: real]"
  let ?ms = "[0, 5, 5, 5, 5, 5 :: real]"
  have pre: "length ?ts = length ?ms \<and> diff ?ms \<noteq> []
      \<and> mean (diff ?ms) + std (diff ?ms) < hd (diff ?ms)"
    by (simp add: mean_example_first std_example_first)
  have gt: "np_gt (Some (5::real)) (Some 3)"
    by simp
  have slice: "py_max (py_slice [5, 0, 0, 0, 0 :: real] (int 0) (- 1)) = Inr 5"
    by (simp add: py_slice_def)
  have "\<exists>g c. estimate_parameters ?ts ?ms = Inr (10, g, c)"
    using estimate_parameters_first_difference [of ?ts ?ms] pre by simp
  moreover have "lag_growth_loop ?ts [5, 0, 0, 0, 0] (Some 3) 0 [5, 0, 0, 0, 0] = Inr (10, 5)"
    using estimate_parameters_first_difference
            [of ?ts ?ms 5 "Some 3" "[5, 0, 0, 0, 0]" 0 "[0, 0, 0, 0]"] gt slice
    by simp
  ultimately show ?thesis
    using pre gt by blast
qed

section \<open>Properties of gompertz\<close>

lemma float_max_ge: "2 ^ 1023 \<le> float_max"
proof -
  have "(1::real) * 2 ^ 1023 \<le> (2 - 1 / 2 ^ 52) * 2 ^ 1023"
    by (intro mult_right_mono) simp_all
  then show ?thesis
    by (simp add: float_max_def)
qed

lemma float_max_less: "float_max < 2 ^ 1024"
proof -
  have "(2 - 1 / 2 ^ 52) * 2 ^ 1023 < (2::real) * 2 ^ 1023"
    by (intro mult_strict_right_mono) simp_all
  moreover have "(2::real) * 2 ^ 1023 = 2 ^ 1024"
    using power_Suc [of "2::real" 1023] by simp
  ultimately show ?thesis
    by (simp add: float_max_def)
qed

lemma float_max_ge_small: "2 ^ 50 \<le> float_max"
proof -
  have "(2::real) ^ 50 \<le> 2 ^ 1023"
    by (intro power_increasing) simp_all
  then show ?thesis
    using float_max_ge by linarith
qed

lemma overflow_small: "\<bar>x\<bar> \<le> 2 ^ 50 \<Longrightarrow> overflow x = Finite x"
  using float_max_ge_small by (auto simp add: overflow_def)

lemma math_e_bounds: "2 \<le> math_e \<and> math_e \<le> 3"
  using exp_ge_add_one_self [of 1] exp_le by (simp add: math_e_def)

text \<open>The log-sum-exp of a single float is that float.\<close>

lemma logsumexp_scalar: "is_float a \<Longrightarrow> logsumexp a = a"
proof (cases a)
  case (Finite x)
  assume "is_float a"
  with Finite have x: "- float_max \<le> x" "x \<le> float_max"
    by simp_all
  have one: "overflow 1 = Finite 1" and zero: "overflow 0 = Finite 0"
    by (simp_all add: overflow_small)
  have "overflow x = Finite x"
    using x by (simp add: overflow_def)
  then show ?thesis
    using Finite one zero by (simp add: logsumexp_def fl_sub_def)
qed (simp_all add: logsumexp_def fl_sub_def)


lemma exp_large: "1024 \<le> x \<Longrightarrow> float_max < exp x"
proof -
  assume x: "1024 \<le> x"
  have "(2::real) ^ 1024 \<le> exp 1 ^ 1024"
    using math_e_bounds by (intro power_mono) (simp_all add: math_e_def)
  also have "\<dots> = exp (of_nat 1024 * 1)"
    by (rule exp_of_nat_mult [symmetric])
  also have "\<dots> \<le> exp x"
    using x by simp
  finally have "(2::real) ^ 1024 \<le> exp x" .
  with float_max_less show ?thesis
    by (rule less_le_trans)
qed

lemma exp_small: "x \<le> 0 \<Longrightarrow> \<not> float_max < exp x \<and> overflow (exp x) = Finite (exp x)"
proof -
  assume "x \<le> 0"
  then have "exp x \<le> 1" "0 < exp x"
    by simp_all
  moreover have "(1::real) \<le> 2 ^ 50"
    by simp
  ultimately have "\<bar>exp x\<bar> \<le> 2 ^ 50"
    by linarith
  then have "overflow (exp x) = Finite (exp x)"
    by (rule overflow_small)
  moreover have "\<not> float_max < exp x"
    using \<open>\<bar>exp x\<bar> \<le> 2 ^ 50\<close> float_max_ge_small by linarith
  ultimately show ?thesis
    by simp
qed

text \<open>
  Claim C1 asks that \<open>gompertz\<close> equal the reference definition wherever nothing overflows.
  The code does not: the log-sum-exp of a single number is that number, so the inner
  exponential of the reference is missing. On the input \<open>(0, 0, 0, 1, 1)\<close>, where nothing
  overflows, the code returns \<open>exp(-1)\<close> and the reference definition gives \<open>exp(-e)\<close>.
\<close>

theorem gompertz_differs_from_reference:
  "gompertz (Finite 0) (Finite 0) (Finite 0) (Finite 1) (Finite 1) = Inr (Finite (exp (- 1)))
   \<and> gompertz_reference 0 0 0 1 1 = exp (- exp 1)
   \<and> exp (- 1 :: real) \<noteq> exp (- exp 1)"
proof -
  have e: "overflow math_e = Finite math_e"
    using math_e_bounds by (intro overflow_small) simp
  have small: "overflow 0 = Finite 0" "overflow 1 = Finite 1"
    by (simp_all add: overflow_small)
  have "is_float (Finite 1)"
    using float_max_ge_small by simp
  then have lse: "logsumexp (Finite 1) = Finite 1"
    by (rule logsumexp_scalar)
  have "gompertz (Finite 0) (Finite 0) (Finite 0) (Finite 1) (Finite 1) = Inr (Finite (exp (- 1)))"
    using exp_small [of "- 1"]
    by (simp add: gompertz_def py_truediv_def fl_sub_def e small lse)
  moreover have "gompertz_reference 0 0 0 1 1 = exp (- exp 1)"
    by (simp add: gompertz_reference_def math_e_def)
  moreover have "exp (- 1 :: real) \<noteq> exp (- exp 1)"
    using math_e_bounds by (simp add: math_e_def)
  ultimately show ?thesis
    by blast
qed

text \<open>
  Claim C7, as amended. For every input, an OverflowError never leaves \<open>gompertz\<close>, and
  whenever the final exponential \<open>math.exp\<close> raises it the result is 0. Nothing is said of
  a product, quotient or sum that overflows to an infinity: it raises nothing.
\<close>

theorem gompertz_overflow:
  "gompertz elapsed_time initial_size lag growth carrying \<noteq> Inl OverflowError
   \<and> (carrying \<noteq> Finite 0
        \<and> math_exp (fl_neg (logsumexp (fl_add
              (fl_mul (fl_div (fl_mul growth (Finite math_e)) carrying) (fl_sub lag elapsed_time))
              (Finite 1)))) = Inl OverflowError
      \<longrightarrow> gompertz elapsed_time initial_size lag growth carrying = Inr (Finite 0))"
  by (simp add: gompertz_def py_truediv_def split: sum.splits error.splits)

text \<open>An input on which the exponential overflows: its argument is \<open>1025 * e - 1\<close>.\<close>

theorem gompertz_overflow_witness:
  "Finite 1 \<noteq> Finite 0
   \<and> math_exp (fl_neg (logsumexp (fl_add
         (fl_mul (fl_div (fl_mul (Finite 1) (Finite math_e)) (Finite 1))
            (fl_sub (Finite 0) (Finite 1025)))
         (Finite 1)))) = Inl OverflowError
   \<and> gompertz (Finite 1025) (Finite 7) (Finite 0) (Finite 1) (Finite 1) = Inr (Finite 0)"
proof -
  have e: "overflow math_e = Finite math_e"
    using math_e_bounds by (intro overflow_small) simp
  have "\<bar>- (math_e * 1025)\<bar> \<le> 2 ^ 50"
    using math_e_bounds by (simp add: abs_if)
  then have prod: "overflow (- (math_e * 1025)) = Finite (- (math_e * 1025))"
    by (rule overflow_small)
  have bound: "\<bar>1 - math_e * 1025\<bar> \<le> 2 ^ 50"
    using math_e_bounds by (simp add: abs_if)
  then have sum: "overflow (1 - math_e * 1025) = Finite (1 - math_e * 1025)"
    by (rule overflow_small)
  have "is_float (Finite (1 - math_e * 1025))"
    using bound float_max_ge_small by (simp add: abs_le_iff)
  then have lse: "logsumexp (Finite (1 - math_e * 1025)) = Finite (1 - math_e * 1025)"
    by (rule logsumexp_scalar)
  have "1024 \<le> math_e * 1025 - 1"
    using math_e_bounds by simp
  then have big: "float_max < exp (math_e * 1025 - 1)"
    by (rule exp_large)
  have over: "math_exp (fl_neg (logsumexp (fl_add
         (fl_mul (fl_div (fl_mul (Finite 1) (Finite math_e)) (Finite 1))
            (fl_sub (Finite 0) (Finite 1025)))
         (Finite 1)))) = Inl OverflowError"
    by (simp add: fl_sub_def e overflow_small prod sum lse big)
  then have "gompertz (Finite 1025) (Finite 7) (Finite 0) (Finite 1) (Finite 1) = Inr (Finite 0)"
    using gompertz_overflow [of "Finite 1025" "Finite 7" "Finite 0" "Finite 1" "Finite 1"]
    by simp
  with over show ?thesis
    by simp
qed

text \<open>
  Claim C7 as stated fails. With the growth rate \<open>1e308\<close>, a finite double, the product
  \<open>growth_rate * e\<close> overflows to infinity without raising, the exponential is taken of
  infinity, and the result is infinity, not 0.
\<close>

lemma float_max_ge_input: "10 ^ 308 \<le> float_max \<and> float_max < 2 * 10 ^ 308"
proof -
  have "(10::real) ^ 308 \<le> (3 / 2) * 2 ^ 1023"
    by simp
  moreover have "(3 / 2) * 2 ^ 1023 \<le> (2 - 1 / 2 ^ 52) * (2::real) ^ 1023"
    by (intro mult_right_mono) simp_all
  moreover have "(2::real) ^ 1024 \<le> 2 * 10 ^ 308"
    by simp
  ultimately show ?thesis
    using float_max_less by (simp add: float_max_def)
qed

lemma gompertz_product_overflow:
  assumes "float_max < big * math_e"
  shows "fl_mul (Finite big) (Finite math_e) = PosInf"
    and "gompertz (Finite 1) (Finite 0) (Finite 0) (Finite big) (Finite 1) = Inr PosInf"
proof -
  show prod: "fl_mul (Finite big) (Finite math_e) = PosInf"
    using assms by (simp add: overflow_def)
  have diff: "fl_sub (Finite 0) (Finite 1) = Finite (- 1)"
    by (simp add: fl_sub_def overflow_small)
  have lse: "logsumexp NegInf = NegInf"
    by (simp add: logsumexp_def fl_sub_def)
  show "gompertz (Finite 1) (Finite 0) (Finite 0) (Finite big) (Finite 1) = Inr PosInf"
    unfolding gompertz_def prod diff by (simp add: py_truediv_def lse)
qed

theorem gompertz_silent_overflow_counterexample:
  "is_float (Finite (10 ^ 308))
   \<and> fl_mul (Finite (10 ^ 308)) (Finite math_e) = PosInf
   \<and> gompertz (Finite 1) (Finite 0) (Finite 0) (Finite (10 ^ 308)) (Finite 1) = Inr PosInf"
proof (intro conjI)
  have "(0::real) \<le> 10 ^ 308"
    by (rule zero_le_power) simp
  then have "- float_max \<le> 10 ^ 308 \<and> 10 ^ 308 \<le> float_max"
    using float_max_ge_input float_max_ge_small by linarith
  then show "is_float (Finite (10 ^ 308))"
    by (simp only: is_float.simps)
  have "0 < (10::real) ^ 308"
    by (rule zero_less_power) simp
  then have "2 * 10 ^ 308 \<le> 10 ^ 308 * math_e"
    using math_e_bounds by (simp only: mult.commute [of _ math_e] mult_le_cancel_right) simp
  then have over: "float_max < 10 ^ 308 * math_e"
    using float_max_ge_input by linarith
  show "fl_mul (Finite (10 ^ 308)) (Finite math_e) = PosInf"
    by (rule gompertz_product_overflow(1) [OF over])
  show "gompertz (Finite 1) (Finite 0) (Finite 0) (Finite (10 ^ 308)) (Finite 1) = Inr PosInf"
    by (rule gompertz_product_overflow(2) [OF over])
qed

section \<open>Properties of the GrowthCurve class\<close>

lemma round_half_even_bounds:
  "\<lfloor>x\<rfloor> \<le> round_half_even x \<and> round_half_even x \<le> \<lfloor>x\<rfloor> + 1"
  by (simp add: round_half_even_def)

lemma round_half_even_of_int: "round_half_even (of_int n) = n"
  by (simp add: round_half_even_def)

lemma timedelta_seconds_zero: "timedelta_seconds (Finite 0) = Inr (Timedelta 0)"
  using round_half_even_of_int [of 0] by (simp add: timedelta_min_def timedelta_max_def)

lemma timedelta_seconds_three: "timedelta_seconds (Finite 3) = Inr (Timedelta 3000000)"
  using round_half_even_of_int [of 3000000] by (simp add: timedelta_min_def timedelta_max_def)

lemma ln_2_bounds: "1 / 2 \<le> ln (2::real) \<and> ln (2::real) < 1"
proof -
  have "ln (1 - 1 / 2) \<le> - (1 / 2 :: real)"
    by (rule ln_one_minus_pos_upper_bound) simp_all
  moreover have "ln (1 - 1 / 2 :: real) = - ln 2"
    using ln_inverse [of "2::real"] by (simp add: inverse_eq_divide)
  ultimately show ?thesis
    using ln_2_less_1 by simp
qed

lemma py_min_Min: "xs \<noteq> [] \<Longrightarrow> py_min xs = Inr (Min (set xs))"
  using Min.set_eq_fold [of "hd xs" "tl xs"] by (cases xs) simp_all

lemma estimate_parameters_Inr_nonempty:
  "estimate_parameters ts ms = Inr r \<Longrightarrow> ms \<noteq> []"
  by (cases "ts = []") (auto simp add: estimate_parameters_def py_getitem_empty)

text \<open>A fit that returns has stored the three parameters and touched nothing else.\<close>

lemma fit_growth_curve_stores:
  assumes "fit_growth_curve curve_fit initial_params self = Inr self'"
  shows "\<exists>l g c. self' = self\<lparr>private_lag_time := Some l,
                             private_growth_rate := Some g,
                             private_carrying_capacity := Some c\<rparr>"
  using assms unfolding fit_growth_curve_def Let_def
  by (auto split: sum.splits prod.splits)

lemma fit_curve_not_converged:
  "curve_fit f ts ms p0 = Inl RuntimeError \<Longrightarrow> fit_curve curve_fit f ts ms p0 = Inr None"
  by (simp add: fit_curve_def)

text \<open>
  Claim C2. Whatever the data, once the initial parameters are estimated and the optimizer
  is called with them (or with the caller's) and fails to converge, raising RuntimeError,
  \<open>fit_growth_curve\<close> raises nothing and stores a zero lag time, a zero growth rate and a
  zero carrying capacity.
\<close>

theorem fit_growth_curve_not_converged:
  assumes "timestamps = map total_seconds (sort_key total_seconds (map fst (growth_curve_data self)))"
    and "measurements = map snd (sort_key (\<lambda>item. total_seconds (fst item)) (growth_curve_data self))"
    and "estimate_parameters timestamps measurements = Inr (l, g, c)"
    and "p0 = (case initial_params of None \<Rightarrow> [Min (set measurements), l, g, c] | Some params \<Rightarrow> params)"
    and "curve_fit gompertz timestamps measurements p0 = Inl RuntimeError"
  shows "fit_growth_curve curve_fit initial_params self =
           Inr (self\<lparr>private_lag_time := Some (Timedelta 0),
                     private_growth_rate := Some (Finite 0),
                     private_carrying_capacity := Some (Finite 0)\<rparr>)"
proof -
  have ne: "measurements \<noteq> []"
    using assms(3) by (rule estimate_parameters_Inr_nonempty)
  have start: "(case initial_params of
                  None \<Rightarrow> (case py_min measurements of
                             Inl err \<Rightarrow> Inl err
                           | Inr m \<Rightarrow> Inr [m, l, g, c])
                | Some params \<Rightarrow> Inr params) = Inr p0"
    using assms(4) ne by (simp add: py_min_Min split: option.splits)
  have fit: "fit_curve curve_fit gompertz timestamps measurements p0 = Inr None"
    using assms(5) by (rule fit_curve_not_converged)
  show ?thesis
    unfolding fit_growth_curve_def Let_def assms(1) [symmetric] assms(2) [symmetric]
    by (simp add: assms(3) start fit timedelta_seconds_zero del: timedelta_seconds.simps)
qed

text \<open>The sample instance with the optimizer that never converges.\<close>

lemma sample_timestamps:
  "map total_seconds (sort_key total_seconds (map fst (growth_curve_data sample_curve))) = [0, 1]"
  by (simp add: sample_curve_def total_seconds_def)

lemma sample_measurements:
  "map snd (sort_key (\<lambda>item. total_seconds (fst item)) (growth_curve_data sample_curve)) = [2, 5]"
  by (simp add: sample_curve_def total_seconds_def)

lemma sample_estimate: "estimate_parameters [0, 1] [2, 5] = Inr (0, 0, 5)"
  by (simp add: estimate_parameters_def py_getitem_def np_std_def np_mean_def
        std_single mean_single)

theorem fit_growth_curve_not_converged_witness:
  "estimate_parameters [0, 1] [2, 5] = Inr (0, 0, 5)
   \<and> failing_fit gompertz [0, 1] [2, 5] [2, 0, 0, 5] = Inl RuntimeError
   \<and> fit_growth_curve failing_fit None sample_curve =
       Inr (sample_curve\<lparr>private_lag_time := Some (Timedelta 0),
                          private_growth_rate := Some (Finite 0),
                          private_carrying_capacity := Some (Finite 0)\<rparr>)"
proof -
  have fails: "failing_fit gompertz [0, 1] [2, 5] [2, 0, 0, 5] = Inl RuntimeError"
    by (simp add: failing_fit_def)
  show ?thesis
    using fit_growth_curve_not_converged
            [where timestamps = "[0, 1]" and measurements = "[2, 5]" and self = sample_curve
               and l = 0 and g = 0 and c = 5 and ?p0.0 = "[2, 0, 0, 5]"
               and initial_params = None and curve_fit = failing_fit]
      sample_timestamps sample_measurements sample_estimate fails
    by simp
qed

text \<open>A read of an attribute that is set returns it and leaves the instance as it is.\<close>

lemma growth_rate_cached:
  "private_growth_rate self = Some rate \<Longrightarrow> growth_rate curve_fit self = Inr (Some rate, self)"
  by (simp add: growth_rate_def)

lemma carrying_capacity_cached:
  "private_carrying_capacity self = Some c \<Longrightarrow>
     carrying_capacity curve_fit self = Inr (Some c, self)"
  by (simp add: carrying_capacity_def)

lemma lag_time_cached:
  "private_lag_time self = Some l \<Longrightarrow> lag_time curve_fit self = Inr (Some l, self)"
  by (simp add: lag_time_def)

lemma py_truediv_positive:
  "fl_gt rate (Finite 0) \<Longrightarrow> py_truediv x rate = Inr (fl_div x rate)"
  by (auto simp add: py_truediv_def)

text \<open>On a fitted instance \<open>doubling_time\<close> is a function of the stored growth rate.\<close>

lemma doubling_time_fitted:
  assumes "private_growth_rate self = Some rate"
  shows "doubling_time curve_fit self =
           (case timedelta_seconds
                   (if fl_gt rate (Finite 0) then fl_div (Finite (ln 2)) rate else Finite 0) of
              Inl err \<Rightarrow> Inl (err, self)
            | Inr delta \<Rightarrow> Inr (delta, self))"
proof (cases "fl_gt rate (Finite 0)")
  case True
  then show ?thesis
    using growth_rate_cached [OF assms, of curve_fit] py_truediv_positive [OF True]
    by (simp add: doubling_time_def del: timedelta_seconds.simps)
next
  case False
  then show ?thesis
    using growth_rate_cached [OF assms, of curve_fit]
    by (simp add: doubling_time_def del: timedelta_seconds.simps)
qed

lemma doubling_seconds_in_range:
  assumes "0 < r" and "round_half_even (ln 2 / r * 10 ^ 6) \<le> timedelta_max"
  shows "timedelta_seconds (fl_div (Finite (ln 2)) (Finite r)) =
           Inr (Timedelta (round_half_even (ln 2 / r * 10 ^ 6)))"
proof -
  define x where "x = ln 2 / r"
  have pos: "0 < x"
    using assms(1) ln_2_bounds by (simp add: x_def)
  have rounded: "round_half_even (x * 10 ^ 6) \<le> timedelta_max"
    using assms(2) by (simp add: x_def)
  have "of_int \<lfloor>x * 10 ^ 6\<rfloor> \<le> (of_int timedelta_max :: real)"
    using round_half_even_bounds [of "x * 10 ^ 6"] rounded by linarith
  then have "x * 10 ^ 6 < of_int timedelta_max + 1"
    by linarith
  then have "x * 10 ^ 6 < 86400000000000 * 10 ^ 6"
    by (simp add: timedelta_max_def)
  then have "x < 86400000000000"
    by simp
  moreover have "(86400000000000::real) \<le> 2 ^ 50"
    by simp
  ultimately have "\<bar>x\<bar> \<le> 2 ^ 50"
    using pos by linarith
  then have finite: "overflow x = Finite x"
    by (rule overflow_small)
  have "0 \<le> x * 10 ^ 6"
    using pos by simp
  then have "0 \<le> \<lfloor>x * 10 ^ 6\<rfloor>"
    by simp
  moreover have "timedelta_min \<le> 0"
    by (simp add: timedelta_min_def)
  ultimately have "timedelta_min \<le> round_half_even (x * 10 ^ 6)"
    using round_half_even_bounds [of "x * 10 ^ 6"] by linarith
  then have "timedelta_seconds (Finite x) = Inr (Timedelta (round_half_even (x * 10 ^ 6)))"
    using rounded by simp
  then show ?thesis
    using finite by (simp add: x_def del: timedelta_seconds.simps)
qed




text \<open>The sample instance fitted by the two optimizers that converge.\<close>

lemma sample_fit_converged:
  "fit_growth_curve converging_fit None sample_curve =
     Inr (sample_curve\<lparr>private_lag_time := Some (Timedelta 3000000),
                        private_growth_rate := Some (Finite 4),
                        private_carrying_capacity := Some (Finite 5)\<rparr>)"
  unfolding fit_growth_curve_def Let_def sample_timestamps sample_measurements
  by (simp add: sample_estimate fit_curve_def converging_fit_def timedelta_seconds_three
        del: timedelta_seconds.simps)






text \<open>
  The instance a first read leaves behind: the fitted one, or the one it started from when
  the fit has raised.
\<close>

lemma lag_time_after:
  "private_lag_time self = None \<Longrightarrow>
     instance_after (lag_time curve_fit self) =
       (case fit_growth_curve curve_fit None self of Inl err \<Rightarrow> self | Inr fitted \<Rightarrow> fitted)"
  by (simp add: lag_time_def instance_after_def split: sum.splits)

lemma growth_rate_after:
  "private_growth_rate self = None \<Longrightarrow>
     instance_after (growth_rate curve_fit self) =
       (case fit_growth_curve curve_fit None self of Inl err \<Rightarrow> self | Inr fitted \<Rightarrow> fitted)"
  by (simp add: growth_rate_def instance_after_def split: sum.splits)

lemma carrying_capacity_after:
  "private_carrying_capacity self = None \<Longrightarrow>
     instance_after (carrying_capacity curve_fit self) =
       (case fit_growth_curve curve_fit None self of Inl err \<Rightarrow> self | Inr fitted \<Rightarrow> fitted)"
  by (simp add: carrying_capacity_def instance_after_def split: sum.splits)

lemma growth_rate_returns_attribute:
  "growth_rate curve_fit self = Inr (v, self') \<Longrightarrow> private_growth_rate self' = v"
  by (auto simp add: growth_rate_def split: sum.splits if_splits)

lemma doubling_time_after:
  "instance_after (doubling_time curve_fit self) = instance_after (growth_rate curve_fit self)"
proof (cases "growth_rate curve_fit self")
  case (Inl failure)
  then show ?thesis
    by (cases failure) (simp add: doubling_time_def instance_after_def)
next
  case (Inr r)
  obtain w s1 where r: "r = (w, s1)"
    by (cases r)
  show ?thesis
  proof (cases w)
    case None
    with Inr r show ?thesis
      by (simp add: doubling_time_def instance_after_def)
  next
    case (Some rate)
    with Inr r have first: "growth_rate curve_fit self = Inr (Some rate, s1)"
      by simp
    then have "private_growth_rate s1 = Some rate"
      by (rule growth_rate_returns_attribute)
    then have again: "growth_rate curve_fit s1 = Inr (Some rate, s1)"
      by (rule growth_rate_cached)
    show ?thesis
      using first again py_truediv_positive [of rate "Finite (ln 2)"]
      by (simp add: doubling_time_def instance_after_def split: sum.splits
            del: timedelta_seconds.simps)
  qed
qed


text \<open>
  Claim C5, as amended. On an instance not yet fitted, whichever property is read first
  runs one \<open>fit_growth_curve\<close> pass. When the pass raises, nothing is stored and the
  instance is as before. When it returns, it has computed the lag time, the growth rate
  and the carrying capacity together and stored them on the instance; the doubling time
  is not stored (its attribute is left as it was) but derived from the stored growth rate
  at each read. From then on every read of the three returns the stored value, every read
  of the doubling time has the same outcome, and the instance is unchanged, whatever the
  optimizer and the data have become: no fit runs again.
\<close>

theorem accessors_cached_after_first_fit:
  assumes "private_lag_time self = None"
    and "private_growth_rate self = None"
    and "private_carrying_capacity self = None"
    and "self' = instance_after (lag_time curve_fit self)
         \<or> self' = instance_after (growth_rate curve_fit self)
         \<or> self' = instance_after (carrying_capacity curve_fit self)
         \<or> self' = instance_after (doubling_time curve_fit self)"
  shows "(self' = self \<and> (\<exists>err. fit_growth_curve curve_fit None self = Inl err))
       \<or> (\<exists>l g c.
           fit_growth_curve curve_fit None self = Inr self'
           \<and> private_lag_time self' = Some l
           \<and> private_growth_rate self' = Some g
           \<and> private_carrying_capacity self' = Some c
           \<and> private_doubling_time self' = private_doubling_time self
           \<and> (\<forall>(other_fit :: 'b optimizer) other_data.
                 lag_time other_fit (self'\<lparr>growth_curve_data := other_data\<rparr>)
                   = Inr (Some l, self'\<lparr>growth_curve_data := other_data\<rparr>)
               \<and> growth_rate other_fit (self'\<lparr>growth_curve_data := other_data\<rparr>)
                   = Inr (Some g, self'\<lparr>growth_curve_data := other_data\<rparr>)
               \<and> carrying_capacity other_fit (self'\<lparr>growth_curve_data := other_data\<rparr>)
                   = Inr (Some c, self'\<lparr>growth_curve_data := other_data\<rparr>)
               \<and> doubling_time other_fit (self'\<lparr>growth_curve_data := other_data\<rparr>)
                   = (case timedelta_seconds
                             (if fl_gt g (Finite 0) then fl_div (Finite (ln 2)) g
                              else Finite 0) of
                        Inl err \<Rightarrow> Inl (err, self'\<lparr>growth_curve_data := other_data\<rparr>)
                      | Inr delta \<Rightarrow> Inr (delta, self'\<lparr>growth_curve_data := other_data\<rparr>))))"
proof -
  have after: "self' = (case fit_growth_curve curve_fit None self of
                          Inl err \<Rightarrow> self | Inr fitted \<Rightarrow> fitted)"
    using assms lag_time_after [of self curve_fit] growth_rate_after [of self curve_fit]
      carrying_capacity_after [of self curve_fit] doubling_time_after [of curve_fit self]
    by auto
  show ?thesis
  proof (cases "fit_growth_curve curve_fit None self")
    case (Inl err)
    with after show ?thesis
      by simp
  next
    case (Inr fitted)
    with after have fit: "fit_growth_curve curve_fit None self = Inr self'"
      by simp
    then obtain l g c where stored:
      "self' = self\<lparr>private_lag_time := Some l,
                     private_growth_rate := Some g,
                     private_carrying_capacity := Some c\<rparr>"
      using fit_growth_curve_stores by blast
    have attrs: "private_lag_time self' = Some l" "private_growth_rate self' = Some g"
      "private_carrying_capacity self' = Some c"
      "private_doubling_time self' = private_doubling_time self"
      by (simp_all add: stored)
    have reads: "lag_time other_fit (self'\<lparr>growth_curve_data := other_data\<rparr>)
                   = Inr (Some l, self'\<lparr>growth_curve_data := other_data\<rparr>)
               \<and> growth_rate other_fit (self'\<lparr>growth_curve_data := other_data\<rparr>)
                   = Inr (Some g, self'\<lparr>growth_curve_data := other_data\<rparr>)
               \<and> carrying_capacity other_fit (self'\<lparr>growth_curve_data := other_data\<rparr>)
                   = Inr (Some c, self'\<lparr>growth_curve_data := other_data\<rparr>)
               \<and> doubling_time other_fit (self'\<lparr>growth_curve_data := other_data\<rparr>)
                   = (case timedelta_seconds
                             (if fl_gt g (Finite 0) then fl_div (Finite (ln 2)) g
                              else Finite 0) of
                        Inl err \<Rightarrow> Inl (err, self'\<lparr>growth_curve_data := other_data\<rparr>)
                      | Inr delta \<Rightarrow> Inr (delta, self'\<lparr>growth_curve_data := other_data\<rparr>))"
      for other_fit :: "'b optimizer" and other_data
    proof -
      let ?s = "self'\<lparr>growth_curve_data := other_data\<rparr>"
      have kept: "private_lag_time ?s = Some l" "private_growth_rate ?s = Some g"
        "private_carrying_capacity ?s = Some c"
        using attrs by simp_all
      show ?thesis
        using lag_time_cached [OF kept(1), of other_fit]
          growth_rate_cached [OF kept(2), of other_fit]
          carrying_capacity_cached [OF kept(3), of other_fit]
          doubling_time_fitted [OF kept(2), of other_fit]
        by (intro conjI)
    qed
    have "\<exists>l g c.
           fit_growth_curve curve_fit None self = Inr self'
           \<and> private_lag_time self' = Some l
           \<and> private_growth_rate self' = Some g
           \<and> private_carrying_capacity self' = Some c
           \<and> private_doubling_time self' = private_doubling_time self
           \<and> (\<forall>(other_fit :: 'b optimizer) other_data.
                 lag_time other_fit (self'\<lparr>growth_curve_data := other_data\<rparr>)
                   = Inr (Some l, self'\<lparr>growth_curve_data := other_data\<rparr>)
               \<and> growth_rate other_fit (self'\<lparr>growth_curve_data := other_data\<rparr>)
                   = Inr (Some g, self'\<lparr>growth_curve_data := other_data\<rparr>)
               \<and> carrying_capacity other_fit (self'\<lparr>growth_curve_data := other_data\<rparr>)
                   = Inr (Some c, self'\<lparr>growth_curve_data := other_data\<rparr>)
               \<and> doubling_time other_fit (self'\<lparr>growth_curve_data := other_data\<rparr>)
                   = (case timedelta_seconds
                             (if fl_gt g (Finite 0) then fl_div (Finite (ln 2)) g
                              else Finite 0) of
                        Inl err \<Rightarrow> Inl (err, self'\<lparr>growth_curve_data := other_data\<rparr>)
                      | Inr delta \<Rightarrow> Inr (delta, self'\<lparr>growth_curve_data := other_data\<rparr>)))"
      apply (rule exI [where x = l])
      apply (rule exI [where x = g])
      apply (rule exI [where x = c])
      using fit attrs reads apply blast
      done
    then show ?thesis
      by (rule disjI2)
  qed
qed

text \<open>
  Claim C5 as stated fails: after a fit pass the doubling-time attribute is still None, so
  the pass neither computes nor caches the fourth output.
\<close>

theorem fit_growth_curve_doubling_time_counterexample:
  "fit_growth_curve converging_fit None sample_curve =
     Inr (sample_curve\<lparr>private_lag_time := Some (Timedelta 3000000),
                        private_growth_rate := Some (Finite 4),
                        private_carrying_capacity := Some (Finite 5)\<rparr>)
   \<and> private_doubling_time (sample_curve\<lparr>private_lag_time := Some (Timedelta 3000000),
                                          private_growth_rate := Some (Finite 4),
                                          private_carrying_capacity := Some (Finite 5)\<rparr>) = None"
  using sample_fit_converged by (simp add: sample_curve_def)


text \<open>
  An instance: after the first read of the growth rate, the lag time and the doubling time
  are read back unchanged, with the data removed and an optimizer that would not converge.
\<close>

lemma doubling_seconds_four:
  "timedelta_seconds (fl_div (Finite (ln 2)) (Finite 4)) =
     Inr (Timedelta (round_half_even (ln 2 / 4 * 10 ^ 6)))"
proof -
  define y :: real where "y = ln 2 / 4 * 10 ^ 6"
  have "y \<le> 250000"
    using ln_2_bounds by (simp add: y_def)
  then have "\<lfloor>y\<rfloor> \<le> 250000"
    by (simp add: floor_le_iff)
  then have "round_half_even y \<le> 250001"
    using round_half_even_bounds [of y] by linarith
  moreover have "250001 \<le> timedelta_max"
    by (simp add: timedelta_max_def)
  ultimately have "round_half_even (ln 2 / 4 * 10 ^ 6) \<le> timedelta_max"
    unfolding y_def by linarith
  then show ?thesis
    by (intro doubling_seconds_in_range) simp_all
qed

theorem accessors_cached_after_first_fit_witness:
  "private_lag_time sample_curve = None
   \<and> private_growth_rate sample_curve = None
   \<and> private_carrying_capacity sample_curve = None
   \<and> instance_after (growth_rate converging_fit sample_curve) =
       sample_curve\<lparr>private_lag_time := Some (Timedelta 3000000),
                     private_growth_rate := Some (Finite 4),
                     private_carrying_capacity := Some (Finite 5)\<rparr>
   \<and> lag_time failing_fit
         (sample_curve\<lparr>private_lag_time := Some (Timedelta 3000000),
                        private_growth_rate := Some (Finite 4),
                        private_carrying_capacity := Some (Finite 5),
                        growth_curve_data := []\<rparr>)
       = Inr (Some (Timedelta 3000000),
           sample_curve\<lparr>private_lag_time := Some (Timedelta 3000000),
                         private_growth_rate := Some (Finite 4),
                         private_carrying_capacity := Some (Finite 5),
                         growth_curve_data := []\<rparr>)
   \<and> doubling_time failing_fit
         (sample_curve\<lparr>private_lag_time := Some (Timedelta 3000000),
                        private_growth_rate := Some (Finite 4),
                        private_carrying_capacity := Some (Finite 5),
                        growth_curve_data := []\<rparr>)
       = Inr (Timedelta (round_half_even (ln 2 / 4 * 10 ^ 6)),
           sample_curve\<lparr>private_lag_time := Some (Timedelta 3000000),
                         private_growth_rate := Some (Finite 4),
                         private_carrying_capacity := Some (Finite 5),
                         growth_curve_data := []\<rparr>)"
proof -
  let ?fitted = "sample_curve\<lparr>private_lag_time := Some (Timedelta 3000000),
                                 private_growth_rate := Some (Finite 4),
                                 private_carrying_capacity := Some (Finite 5)\<rparr>"
  have fresh: "private_lag_time sample_curve = None" "private_growth_rate sample_curve = None"
    "private_carrying_capacity sample_curve = None"
    by (simp_all add: sample_curve_def)
  have read: "instance_after (growth_rate converging_fit sample_curve) = ?fitted"
    using growth_rate_after [OF fresh(2), of converging_fit] sample_fit_converged by simp
  then have some: "?fitted = instance_after (lag_time converging_fit sample_curve)
         \<or> ?fitted = instance_after (growth_rate converging_fit sample_curve)
         \<or> ?fitted = instance_after (carrying_capacity converging_fit sample_curve)
         \<or> ?fitted = instance_after (doubling_time converging_fit sample_curve)"
    by simp
  have returned: "\<not> (\<exists>err. fit_growth_curve converging_fit None sample_curve = Inl err)"
    using sample_fit_converged by simp
  from accessors_cached_after_first_fit [where ?'b = unit, OF fresh some] returned
  obtain l g c where attrs: "private_lag_time ?fitted = Some l" "private_growth_rate ?fitted = Some g"
    and reads: "\<forall>(other_fit :: unit optimizer) other_data.
                 lag_time other_fit (?fitted\<lparr>growth_curve_data := other_data\<rparr>)
                   = Inr (Some l, ?fitted\<lparr>growth_curve_data := other_data\<rparr>)
               \<and> growth_rate other_fit (?fitted\<lparr>growth_curve_data := other_data\<rparr>)
                   = Inr (Some g, ?fitted\<lparr>growth_curve_data := other_data\<rparr>)
               \<and> carrying_capacity other_fit (?fitted\<lparr>growth_curve_data := other_data\<rparr>)
                   = Inr (Some c, ?fitted\<lparr>growth_curve_data := other_data\<rparr>)
               \<and> doubling_time other_fit (?fitted\<lparr>growth_curve_data := other_data\<rparr>)
                   = (case timedelta_seconds
                             (if fl_gt g (Finite 0) then fl_div (Finite (ln 2)) g
                              else Finite 0) of
                        Inl err \<Rightarrow> Inl (err, ?fitted\<lparr>growth_curve_data := other_data\<rparr>)
                      | Inr delta \<Rightarrow> Inr (delta, ?fitted\<lparr>growth_curve_data := other_data\<rparr>))"
    by blast
  from attrs have vals: "l = Timedelta 3000000" "g = Finite 4"
    by simp_all
  have gt: "fl_gt (Finite 4) (Finite 0)"
    by simp
  from reads have "lag_time failing_fit (?fitted\<lparr>growth_curve_data := []\<rparr>)
                   = Inr (Some l, ?fitted\<lparr>growth_curve_data := []\<rparr>)"
    and "doubling_time failing_fit (?fitted\<lparr>growth_curve_data := []\<rparr>)
                   = (case timedelta_seconds
                             (if fl_gt g (Finite 0) then fl_div (Finite (ln 2)) g
                              else Finite 0) of
                        Inl err \<Rightarrow> Inl (err, ?fitted\<lparr>growth_curve_data := []\<rparr>)
                      | Inr delta \<Rightarrow> Inr (delta, ?fitted\<lparr>growth_curve_data := []\<rparr>))"
    by blast+
  then have "lag_time failing_fit (?fitted\<lparr>growth_curve_data := []\<rparr>)
                   = Inr (Some (Timedelta 3000000), ?fitted\<lparr>growth_curve_data := []\<rparr>)"
    and "doubling_time failing_fit (?fitted\<lparr>growth_curve_data := []\<rparr>)
                   = Inr (Timedelta (round_half_even (ln 2 / 4 * 10 ^ 6)),
                          ?fitted\<lparr>growth_curve_data := []\<rparr>)"
    unfolding vals by (simp_all only: gt if_True doubling_seconds_four sum.case)
  with fresh read show ?thesis
    by (intro conjI)
qed

section \<open>Properties of colonies\_from\_timepoints\<close>

text \<open>
  Claim C8. Clustering an empty sequence of detections fails with ValueError, for every
  distance.
\<close>

theorem colonies_from_timepoints_empty:
  "colonies_from_timepoints [] distance = Inl ValueError"
  by (simp add: colonies_from_timepoints_def)

text \<open>At distance 1, the default-like case of the test.\<close>

theorem colonies_from_timepoints_empty_witness:
  "colonies_from_timepoints [] 1 = Inl ValueError"
  using colonies_from_timepoints_empty [of 1] by simp

end
